theory Spec2Isabelle
  imports Complex_Main "HOL-Library.Product_Lexorder" "HOL-Library.Multiset"
begin

section \<open>The model of \<open>astrosource/comparison.py\<close>\<close>

text \<open>
  The functions of \<open>comparison.py\<close> in the order of the pipeline:
  \<open>remove_stars_targets\<close>, \<open>calculate_comparison_variation\<close> and the rejection loop of
  \<open>find_comparisons\<close>, \<open>final_candidate_catalogue\<close>, the target exclusion and the
  crowding loop of \<open>catalogue_call\<close>, the filter table and the calibration uncertainty
  of \<open>find_comparisons_calibrated\<close>. What astropy, astroquery and the file system do is
  an input or a parameter of the model: the photometry tables, the entries a catalogue
  query returned, the nearest-neighbour match and the angular separation.
\<close>

subsection \<open>Errors and numpy floats\<close>

text \<open>
  The exceptions the modelled code can raise. \<open>NameError\<close> carries the name that is
  read without being bound, \<open>AstrosourceException\<close> its message.
\<close>

datatype py_error =
    IndexError
  | KeyError string
  | ValueError
  | NameError string
  | SystemExit
  | AstrosourceException string

text \<open>
  A numpy \<open>float64\<close>: a finite value, the two infinities, or NaN. Finite arithmetic is
  exact real arithmetic (rounding and overflow are not modelled, and the two zeros are
  one); what is modelled is how NaN and the infinities arise and propagate, and that
  every comparison with NaN is false. numpy's float operations never raise: they
  return NaN or an infinity (with a warning).
\<close>

datatype npfloat = Fin real | PInf | NInf | NaN

fun isnan :: "npfloat \<Rightarrow> bool" where
  "isnan NaN = True"
| "isnan _ = False"

fun np_eq :: "npfloat \<Rightarrow> npfloat \<Rightarrow> bool" where
  "np_eq (Fin a) (Fin b) = (a = b)"
| "np_eq PInf PInf = True"
| "np_eq NInf NInf = True"
| "np_eq _ _ = False"

fun np_lt :: "npfloat \<Rightarrow> npfloat \<Rightarrow> bool" where
  "np_lt (Fin a) (Fin b) = (a < b)"
| "np_lt NInf (Fin b) = True"
| "np_lt NInf PInf = True"
| "np_lt (Fin a) PInf = True"
| "np_lt _ _ = False"

definition np_gt :: "npfloat \<Rightarrow> npfloat \<Rightarrow> bool" where
  "np_gt a b = np_lt b a"

fun np_neg :: "npfloat \<Rightarrow> npfloat" where
  "np_neg (Fin a) = Fin (- a)"
| "np_neg PInf = NInf"
| "np_neg NInf = PInf"
| "np_neg NaN = NaN"

fun np_add :: "npfloat \<Rightarrow> npfloat \<Rightarrow> npfloat" where
  "np_add (Fin a) (Fin b) = Fin (a + b)"
| "np_add NaN _ = NaN"
| "np_add _ NaN = NaN"
| "np_add PInf NInf = NaN"
| "np_add NInf PInf = NaN"
| "np_add PInf _ = PInf"
| "np_add _ PInf = PInf"
| "np_add NInf _ = NInf"
| "np_add _ NInf = NInf"

definition np_sub :: "npfloat \<Rightarrow> npfloat \<Rightarrow> npfloat" where
  "np_sub a b = np_add a (np_neg b)"

fun np_abs :: "npfloat \<Rightarrow> npfloat" where
  "np_abs (Fin a) = Fin \<bar>a\<bar>"
| "np_abs NaN = NaN"
| "np_abs _ = PInf"

text \<open>The sign of a float: 1, -1, or 0 for zero; NaN has none.\<close>

fun np_sign :: "npfloat \<Rightarrow> int" where
  "np_sign (Fin a) = (if 0 < a then 1 else if a < 0 then - 1 else 0)"
| "np_sign PInf = 1"
| "np_sign NInf = - 1"
| "np_sign NaN = 0"

definition inf_of_sign :: "int \<Rightarrow> npfloat" where
  "inf_of_sign s = (if 0 < s then PInf else if s < 0 then NInf else NaN)"

fun np_mul :: "npfloat \<Rightarrow> npfloat \<Rightarrow> npfloat" where
  "np_mul (Fin a) (Fin b) = Fin (a * b)"
| "np_mul NaN _ = NaN"
| "np_mul _ NaN = NaN"
| "np_mul a b = inf_of_sign (np_sign a * np_sign b)"

text \<open>
  Division: a finite value over zero is an infinity of the numerator's sign, and
  \<open>0/0\<close>, \<open>inf/inf\<close> are NaN.
\<close>

fun np_div :: "npfloat \<Rightarrow> npfloat \<Rightarrow> npfloat" where
  "np_div (Fin a) (Fin b) = (if b \<noteq> 0 then Fin (a / b) else inf_of_sign (np_sign (Fin a)))"
| "np_div NaN _ = NaN"
| "np_div _ NaN = NaN"
| "np_div (Fin a) _ = Fin 0"
| "np_div a (Fin b) = inf_of_sign (np_sign a * (if b < 0 then - 1 else 1))"
| "np_div _ _ = NaN"

fun np_log10 :: "npfloat \<Rightarrow> npfloat" where
  "np_log10 (Fin a) = (if 0 < a then Fin (log 10 a) else if a = 0 then NInf else NaN)"
| "np_log10 PInf = PInf"
| "np_log10 _ = NaN"

fun np_sqrt :: "npfloat \<Rightarrow> npfloat" where
  "np_sqrt (Fin a) = (if 0 \<le> a then Fin (sqrt a) else NaN)"
| "np_sqrt PInf = PInf"
| "np_sqrt _ = NaN"

text \<open>
  \<open>numpy.std\<close> with its defaults: the population standard deviation, the square
  root of the mean of the squared deviations from the mean. Of an empty array it is
  NaN (\<open>0/0\<close>).
\<close>

definition np_sum :: "npfloat list \<Rightarrow> npfloat" where
  "np_sum xs = foldl np_add (Fin 0) xs"

definition np_mean :: "npfloat list \<Rightarrow> npfloat" where
  "np_mean xs = np_div (np_sum xs) (Fin (real (length xs)))"

definition np_std :: "npfloat list \<Rightarrow> npfloat" where
  "np_std xs =
     (let m = np_mean xs
      in np_sqrt (np_mean (map (\<lambda>x. np_mul (np_abs (np_sub x m)) (np_abs (np_sub x m))) xs)))"

text \<open>
  The order numpy sorts floats by: \<open>-inf\<close>, the finite values, \<open>inf\<close>, and NaN
  last.
\<close>

fun np_key :: "npfloat \<Rightarrow> nat \<times> real" where
  "np_key NInf = (0, 0)"
| "np_key (Fin a) = (1, a)"
| "np_key PInf = (2, 0)"
| "np_key NaN = (3, 0)"

text \<open>
  \<open>numpy.min\<close> raises ValueError on an empty array and returns NaN when any element
  is NaN. \<open>numpy.median\<close> is NaN when any element is NaN (and on an empty array);
  for an even count it is the mean of the two middle values.
\<close>

definition np_minimum :: "npfloat \<Rightarrow> npfloat \<Rightarrow> npfloat" where
  "np_minimum a b = (if isnan a \<or> isnan b then NaN else if np_lt b a then b else a)"

definition np_min :: "npfloat list \<Rightarrow> py_error + npfloat" where
  "np_min xs = (case xs of [] \<Rightarrow> Inl ValueError | x # ys \<Rightarrow> Inr (foldl np_minimum x ys))"

definition np_median :: "npfloat list \<Rightarrow> npfloat" where
  "np_median xs =
     (if xs = [] \<or> list_ex isnan xs then NaN
      else let s = sort_key np_key xs; n = length s
           in if odd n then s ! (n div 2)
              else np_div (np_add (s ! (n div 2 - 1)) (s ! (n div 2))) (Fin 2))"

subsection \<open>Photometry tables\<close>

text \<open>
  A row of a photometry file has six columns; the code reads column 0 (right
  ascension), column 1 (declination) and column 4 (flux counts). A frame is the table
  of one image; \<open>comparisons\<close> is a three-dimensional array, frames by stars by
  columns, so all its frames have the same number of rows.
\<close>

record phot_row =
  ra :: npfloat
  dec :: npfloat
  col2 :: npfloat
  col3 :: npfloat
  counts :: npfloat
  counts_err :: npfloat

type_synonym frame = "phot_row list"

text \<open>
  A row of \<open>sortStars\<close>: right ascension, declination, variability score and ten
  reserved columns.
\<close>

record sort_star =
  s_ra :: npfloat
  s_dec :: npfloat
  s_std :: npfloat
  s_reserved :: "npfloat list"

definition is_3d :: "frame list \<Rightarrow> bool" where
  "is_3d comparisons =
     (comparisons \<noteq> [] \<and> list_all (\<lambda>c. length c = length (hd comparisons)) comparisons)"

definition numstars :: "frame list \<Rightarrow> nat" where
  "numstars comparisons = length (hd comparisons)"

text \<open>
  \<open>c[mask]\<close> and \<open>c[starRejecter]\<close>: a list of booleans indexes a numpy array as a
  mask that keeps the rows marked True, and numpy raises IndexError unless the mask is
  as long as the array's first dimension.
\<close>

definition np_mask :: "'a list \<Rightarrow> bool list \<Rightarrow> py_error + 'a list" where
  "np_mask c m =
     (if length m = length c then Inr (map fst (filter snd (zip c m))) else Inl IndexError)"

text \<open>
  \<open>[c[mask] for c in photlist]\<close> and \<open>array([c[starRejecter] for c in comparisons])\<close>:
  the mask applied frame by frame.
\<close>

fun mask_frames :: "frame list \<Rightarrow> bool list \<Rightarrow> py_error + frame list" where
  "mask_frames [] m = Inr []"
| "mask_frames (c # cs) m =
     (case np_mask c m of
        Inl e \<Rightarrow> Inl e
      | Inr c' \<Rightarrow> (case mask_frames cs m of Inl e \<Rightarrow> Inl e | Inr cs' \<Rightarrow> Inr (c' # cs')))"

text \<open>
  \<open>match_to_catalog_sky\<close> belongs to astropy: given a position and a catalogue of
  positions it returns the index of the catalogue entry nearest on the sky and the
  angular separation to it (here in arcseconds). The model takes it as a parameter.
\<close>

type_synonym matcher = "npfloat \<times> npfloat \<Rightarrow> (npfloat \<times> npfloat) list \<Rightarrow> nat \<times> npfloat"

definition coords :: "frame \<Rightarrow> (npfloat \<times> npfloat) list" where
  "coords referenceFrame = map (\<lambda>r. (ra r, dec r)) referenceFrame"

subsection \<open>\<open>remove_stars_targets\<close>\<close>

text \<open>
  The names that are bound when the body of \<open>remove_stars_targets\<close> runs: the names
  the module binds at its top level (its imports, \<open>logger\<close> and its functions) and the
  parameters and local variables of the function. Reading any other name that is not
  a builtin raises NameError.
\<close>

definition bound_names :: "string list" where
  "bound_names =
     [''glob'', ''sys'', ''os'', ''Path'', ''namedtuple'', ''np'', ''min'', ''max'', ''median'',
      ''std'', ''isnan'', ''delete'', ''genfromtxt'', ''savetxt'', ''load'', ''asarray'', ''add'',
      ''append'', ''log10'', ''average'', ''array'', ''where'', ''degree'', ''arcsecond'',
      ''SkyCoord'', ''SDSS'', ''ConeSearch'', ''VOSError'', ''Vizier'', ''AstrosourceException'',
      ''logging'', ''logger'', ''find_comparisons'', ''final_candidate_catalogue'',
      ''calculate_comparison_variation'', ''remove_stars_targets'', ''catalogue_call'',
      ''find_comparisons_calibrated'',
      ''photlist'', ''acceptDistance'', ''targetFile'', ''removeTargets'', ''max_sep'',
      ''compFile'', ''fileRaDec'', ''targetRejecter'', ''z'', ''avgCoord'', ''variableResult'',
      ''raCat'', ''decCat'', ''mask'', ''t'', ''compCoord'', ''catCoords'', ''idxcomp'',
      ''d2dcomp'', ''d3dcomp'', ''e'', ''sortStars'']"

definition name_lookup :: "string \<Rightarrow> py_error + unit" where
  "name_lookup name = (if name \<in> set bound_names then Inr () else Inl (NameError name))"

text \<open>
  The test at the variable star match, \<open>d2dcomp.arcsecond.any() < max_sep.value\<close>:
  \<open>any()\<close> of the separation is whether it is not zero (NaN and the infinities are not
  zero), and the comparison takes that truth value as the number 1 or 0.
  \<open>max_sep.value\<close> is \<open>acceptDistance\<close>.
\<close>

fun np_any :: "npfloat \<Rightarrow> bool" where
  "np_any (Fin a) = (a \<noteq> 0)"
| "np_any _ = True"

definition bool_value :: "bool \<Rightarrow> npfloat" where
  "bool_value b = Fin (if b then 1 else 0)"

definition variable_star_test :: "npfloat \<Rightarrow> npfloat \<Rightarrow> bool" where
  "variable_star_test d2dcomp max_sep = np_lt (bool_value (np_any d2dcomp)) max_sep"

text \<open>
  The loop over the entries of the variable star catalogue, each a pair of
  \<open>raCat[t]\<close> and \<open>decCat[t]\<close>, with \<open>mask\<close> (here \<open>rowmask\<close>) as its state.
  \<open>compFile\<close> is a table with six columns, so \<open>compFile.size\<close> is never 2 and the
  first of the three branches, the match against all candidates, is the one taken;
  there \<open>d2dcomp\<close> is an angle, which is never equal to the bare number 9999, and its
  value in arcseconds is a numpy scalar. Matching against an empty catalogue raises
  ValueError. In the branch of a match, \<open>varStarReject.append(t)\<close> comes before
  \<open>mask[idxcomp] = False\<close>.
\<close>

fun vsx_loop ::
  "matcher \<Rightarrow> npfloat \<Rightarrow> frame \<Rightarrow> (npfloat \<times> npfloat) list \<Rightarrow> bool list \<Rightarrow> py_error + bool list" where
  "vsx_loop match_to_catalog_sky acceptDistance compFile [] rowmask = Inr rowmask"
| "vsx_loop match_to_catalog_sky acceptDistance compFile (v # vs) rowmask =
     (if compFile = [] then Inl ValueError
      else let (idxcomp, d2dcomp) = match_to_catalog_sky v (coords compFile)
           in if variable_star_test d2dcomp acceptDistance
              then (case name_lookup ''varStarReject'' of
                      Inl e \<Rightarrow> Inl e
                    | Inr _ \<Rightarrow>
                        if idxcomp < length rowmask
                        then vsx_loop match_to_catalog_sky acceptDistance compFile vs
                               (rowmask[idxcomp := False])
                        else Inl IndexError)
              else vsx_loop match_to_catalog_sky acceptDistance compFile vs rowmask)"

text \<open>
  \<open>remove_stars_targets\<close>, given the entries the variable star catalogue returned for
  the field. The rows of \<open>targetFile\<close> are only screened for NaN and not used again, so
  the targets are left out of the model. With exactly one candidate the function writes
  the star to \<open>parentPath / "compsUsed.csv"\<close> and to \<open>stdComps.csv\<close> and then raises
  AstrosourceException.
\<close>

definition remove_stars_targets ::
  "matcher \<Rightarrow> (npfloat \<times> npfloat) list \<Rightarrow> frame list \<Rightarrow> npfloat \<Rightarrow> py_error + frame list" where
  "remove_stars_targets match_to_catalog_sky variableResult photlist acceptDistance =
     (case photlist of
        [] \<Rightarrow> Inl IndexError
      | compFile # _ \<Rightarrow>
          (case vsx_loop match_to_catalog_sky acceptDistance compFile variableResult
                  (replicate (length compFile) True) of
             Inl e \<Rightarrow> Inl e
           | Inr rowmask \<Rightarrow>
               (case mask_frames photlist rowmask of
                  Inl e \<Rightarrow> Inl e
                | Inr photlist' \<Rightarrow>
                    if length compFile = 1
                    then (case name_lookup ''parentPath'' of
                            Inl e \<Rightarrow> Inl e
                          | Inr _ \<Rightarrow>
                              Inl (AstrosourceException
                                     ''Looks like you have a single comparison star!''))
                    else Inr photlist')))"

subsection \<open>\<open>calculate_comparison_variation\<close>\<close>

text \<open>
  The inner loop over the frames: the differential magnitudes of star \<open>j\<close>,
  \<open>2.5 * log10(comparisons[q][j][4] / count)\<close> for each frame \<open>q\<close> with its ensemble
  count.
\<close>

definition compDiffMags :: "frame list \<Rightarrow> npfloat list \<Rightarrow> nat \<Rightarrow> npfloat list" where
  "compDiffMags comparisons fileCount j =
     map (\<lambda>(q, count). np_mul (Fin 2.5) (np_log10 (np_div (counts (comparisons ! q ! j)) count)))
       (enumerate 0 fileCount)"

text \<open>
  The outer loop over the stars. The test \<open>std(compDiffMags) == np.nan\<close> guards
  \<open>sys.exit()\<close>; otherwise the score is appended to \<open>stdCompStar\<close> and the row to
  \<open>sortStars\<close>.
\<close>

fun variation_loop ::
  "frame list \<Rightarrow> npfloat list \<Rightarrow> nat list \<Rightarrow> npfloat list \<times> sort_star list \<Rightarrow>
   py_error + npfloat list \<times> sort_star list" where
  "variation_loop comparisons fileCount [] acc = Inr acc"
| "variation_loop comparisons fileCount (j # js) (stdCompStar, sortStars) =
     (let d = compDiffMags comparisons fileCount j
      in if np_eq (np_std d) NaN then Inl SystemExit
         else variation_loop comparisons fileCount js
                (stdCompStar @ [np_std d],
                 sortStars @ [\<lparr>s_ra = ra (comparisons ! 0 ! j), s_dec = dec (comparisons ! 0 ! j),
                               s_std = np_std d, s_reserved = replicate 10 (Fin 0)\<rparr>]))"

text \<open>
  Unpacking the shape into three names raises ValueError unless the array is
  three-dimensional; reading \<open>comparisons[q]\<close> for a count beyond the last frame raises
  IndexError.
\<close>

definition calculate_comparison_variation ::
  "frame list \<Rightarrow> npfloat list \<Rightarrow> py_error + npfloat list \<times> sort_star list" where
  "calculate_comparison_variation comparisons fileCount =
     (if \<not> is_3d comparisons then Inl ValueError
      else if 0 < numstars comparisons \<and> length comparisons < length fileCount then Inl IndexError
      else variation_loop comparisons fileCount [0..<numstars comparisons] ([], []))"

subsection \<open>The rejection loop of \<open>find_comparisons\<close>\<close>

text \<open>
  \<open>fileCount = np.ndarray.sum(comparisons, axis=1)[:,4]\<close>: for each frame, the sum of
  the flux counts of all its stars.
\<close>

definition fileCount_of :: "frame list \<Rightarrow> npfloat list" where
  "fileCount_of comparisons = map (\<lambda>c. np_sum (map counts c)) comparisons"

text \<open>
  The \<open>for j, stdComp in enumerate(stdCompStar)\<close> loop: a star whose score is above
  the limit, or NaN, gets \<open>starRejecter[j] = False\<close> (an assignment past the end of a
  Python list raises IndexError).
\<close>

fun reject_loop :: "npfloat \<Rightarrow> (nat \<times> npfloat) list \<Rightarrow> bool list \<Rightarrow> py_error + bool list" where
  "reject_loop cutoff [] starRejecter = Inr starRejecter"
| "reject_loop cutoff ((j, stdComp) # rest) starRejecter =
     (if np_gt stdComp cutoff \<or> isnan stdComp
      then (if j < length starRejecter then reject_loop cutoff rest (starRejecter[j := False])
            else Inl IndexError)
      else reject_loop cutoff rest starRejecter)"

text \<open>
  The rejection step of one pass: only when the least score is above 0.002 are the
  stars above \<open>median + stdMultiplier * std\<close> rejected.
\<close>

definition rejection_pass :: "npfloat \<Rightarrow> npfloat \<Rightarrow> npfloat list \<Rightarrow> bool list \<Rightarrow> py_error + bool list" where
  "rejection_pass stdMultiplier minStd stdCompStar starRejecter =
     (let stdCompMed = np_median stdCompStar; stdCompStd = np_std stdCompStar
      in if np_gt minStd (Fin 0.002)
         then reject_loop (np_add stdCompMed (np_mul stdMultiplier stdCompStd))
                (enumerate 0 stdCompStar) starRejecter
         else Inr starRejecter)"

text \<open>
  What the loop hands on: the masked \<open>comparisons\<close>, the \<open>sortStars\<close> and
  \<open>variabilityMax\<close> of the last pass, and the number of passes executed (the last is
  not in the source; it is counted to state how often the body runs).
\<close>

type_synonym loop_result = "frame list \<times> sort_star list \<times> npfloat \<times> nat"

definition ntrue :: "bool list \<Rightarrow> nat" where
  "ntrue m = length (filter id m)"

lemma ntrue_pos:
  assumes "j < length m" and "m ! j"
  shows "0 < ntrue m"
proof -
  from assms(1) have "m ! j \<in> set m" by (rule nth_mem)
  with assms(2) have "m ! j \<in> set (filter id m)" by simp
  then have "filter id m \<noteq> []" by (metis empty_iff empty_set)
  then show ?thesis by (simp add: ntrue_def)
qed

lemma ntrue_update_False:
  "j < length m \<Longrightarrow> ntrue (m[j := False]) = (if m ! j then ntrue m - 1 else ntrue m)"
proof (induction m arbitrary: j)
  case Nil
  then show ?case by simp
next
  case (Cons b m)
  show ?case
  proof (cases j)
    case 0
    then show ?thesis by (simp add: ntrue_def)
  next
    case (Suc k)
    with Cons.prems have k: "k < length m" by simp
    have "m ! k \<Longrightarrow> 0 < length (filter id m)"
      using ntrue_pos [OF k] by (simp add: ntrue_def)
    then show ?thesis using Cons.IH [OF k] Suc by (cases b) (simp_all add: ntrue_def)
  qed
qed

lemma update_False_shrinks:
  assumes "j < length m"
  shows "ntrue (m[j := False]) \<le> ntrue m \<and> (ntrue (m[j := False]) = ntrue m \<longrightarrow> m[j := False] = m)"
proof (cases "m ! j")
  case True
  from ntrue_pos [OF assms True] have "ntrue m - 1 \<noteq> ntrue m" by arith
  then show ?thesis using assms True by (simp add: ntrue_update_False)
next
  case False
  then have "m[j := False] = m" by (metis list_update_id)
  then show ?thesis by simp
qed

lemma reject_loop_shrinks:
  "reject_loop cutoff js m = Inr m' \<Longrightarrow>
     length m' = length m \<and> ntrue m' \<le> ntrue m \<and> (ntrue m' = ntrue m \<longrightarrow> m' = m)"
proof (induction cutoff js m rule: reject_loop.induct)
  case (1 cutoff starRejecter)
  then show ?case by simp
next
  case (2 cutoff j stdComp rest starRejecter)
  show ?case
  proof (cases "np_gt stdComp cutoff \<or> isnan stdComp")
    case False
    then show ?thesis using 2 by simp
  next
    case True
    with "2.prems" have j: "j < length starRejecter" by (simp split: if_splits)
    with True "2.prems" have r: "reject_loop cutoff rest (starRejecter[j := False]) = Inr m'" by simp
    from "2.IH"(1) [OF True j r] update_False_shrinks [OF j] show ?thesis by auto
  qed
qed

lemma rejection_pass_shrinks:
  "rejection_pass sm mn scores m = Inr m' \<Longrightarrow>
     length m' = length m \<and> ntrue m' \<le> ntrue m \<and> (ntrue m' = ntrue m \<longrightarrow> m' = m)"
  unfolding rejection_pass_def Let_def
  by (simp split: if_splits add: reject_loop_shrinks)

text \<open>
  The \<open>while True\<close> loop. It leaves when the mask equals \<open>oldrejects\<close>, and otherwise
  copies the mask into \<open>oldrejects\<close> and runs again on the masked array.
\<close>

function rejection_cycle ::
  "npfloat list \<Rightarrow> npfloat \<Rightarrow> npfloat \<Rightarrow> nat \<Rightarrow> frame list \<Rightarrow> bool list \<Rightarrow> bool list \<Rightarrow>
   py_error + loop_result" where
  "rejection_cycle fileCount stdMultiplier variabilityMultiplier passes comparisons starRejecter oldrejects =
     (case calculate_comparison_variation comparisons fileCount of
        Inl e \<Rightarrow> Inl e
      | Inr (stdCompStar, sortStars) \<Rightarrow>
          (case np_min stdCompStar of
             Inl e \<Rightarrow> Inl e
           | Inr minStd \<Rightarrow>
               (case rejection_pass stdMultiplier minStd stdCompStar starRejecter of
                  Inl e \<Rightarrow> Inl e
                | Inr starRejecter' \<Rightarrow>
                    (case mask_frames comparisons starRejecter' of
                       Inl e \<Rightarrow> Inl e
                     | Inr comparisons' \<Rightarrow>
                         if starRejecter' = oldrejects
                         then Inr (comparisons', sortStars, np_mul minStd variabilityMultiplier, Suc passes)
                         else rejection_cycle fileCount stdMultiplier variabilityMultiplier (Suc passes)
                                comparisons' starRejecter' starRejecter'))))"
  by pat_completeness auto
termination
proof (relation "measure (\<lambda>(fc, sm, vm, passes, cs, m, old). 2 * ntrue m + (if m = old then 0 else 1))",
    goal_cases)
  case 1
  show ?case by simp
next
  case (2 fileCount stdMultiplier variabilityMultiplier passes comparisons starRejecter oldrejects
      x2 stdCompStar sortStars minStd starRejecter' comparisons')
  from rejection_pass_shrinks [OF 2(4)] 2(6) show ?case by (cases "ntrue starRejecter' = ntrue starRejecter") simp_all
qed

declare rejection_cycle.simps [simp del]

text \<open>
  The loop as \<open>find_comparisons\<close> enters it: the ensemble counts are taken once, from
  the array before any rejection; \<open>starRejecter\<close> starts all True and
  \<open>oldrejects\<close> all False, each with one entry per star.
\<close>

definition find_comparisons_loop :: "frame list \<Rightarrow> npfloat \<Rightarrow> npfloat \<Rightarrow> py_error + loop_result" where
  "find_comparisons_loop comparisons stdMultiplier variabilityMultiplier =
     (if \<not> is_3d comparisons then Inl ValueError
      else rejection_cycle (fileCount_of comparisons) stdMultiplier variabilityMultiplier 0 comparisons
             (replicate (numstars comparisons) True) (replicate (numstars comparisons) False))"

subsection \<open>\<open>final_candidate_catalogue\<close>\<close>

text \<open>A row of \<open>compFile\<close>: right ascension, declination, variability score.\<close>

type_synonym comp_row = "npfloat \<times> npfloat \<times> npfloat"

text \<open>
  \<open>argsort\<close>: the indices in ascending order of their values, NaN last. Equal
  values are kept in index order here; numpy's default sort does not promise an order
  among equal values.
\<close>

definition np_argsort :: "npfloat list \<Rightarrow> nat list" where
  "np_argsort xs = sort_key (\<lambda>j. np_key (xs ! j)) [0..<length xs]"

text \<open>
  The \<open>for j in sortorder\<close> loop, with \<open>compFile\<close>, \<open>tempCountCounter\<close> and
  \<open>finalCountCounter\<close> as its state. \<open>n\<close> is \<open>len(sortorder)\<close>. Matching against an
  empty catalogue raises ValueError, and \<open>referenceFrame[idx]\<close> raises IndexError for
  an index past the end.
\<close>

fun pick_loop ::
  "matcher \<Rightarrow> frame \<Rightarrow> sort_star list \<Rightarrow> npfloat \<Rightarrow> npfloat \<Rightarrow> nat \<Rightarrow> nat list \<Rightarrow>
   comp_row list \<times> npfloat \<times> npfloat \<Rightarrow> py_error + comp_row list \<times> npfloat \<times> npfloat" where
  "pick_loop match_to_catalog_sky referenceFrame sortStars thresholdCounts variabilityMax n [] st = Inr st"
| "pick_loop match_to_catalog_sky referenceFrame sortStars thresholdCounts variabilityMax n (j # js)
     (compFile, tempCountCounter, finalCountCounter) =
     (if referenceFrame = [] then Inl ValueError
      else let idx = fst (match_to_catalog_sky (s_ra (sortStars ! j), s_dec (sortStars ! j))
                            (coords referenceFrame))
           in if length referenceFrame \<le> idx then Inl IndexError
              else if np_lt tempCountCounter thresholdCounts \<and>
                      (n = 1 \<or> np_lt (s_std (sortStars ! j)) variabilityMax)
                   then pick_loop match_to_catalog_sky referenceFrame sortStars thresholdCounts
                          variabilityMax n js
                          (compFile @ [(s_ra (sortStars ! j), s_dec (sortStars ! j), s_std (sortStars ! j))],
                           np_add tempCountCounter (counts (referenceFrame ! idx)),
                           np_add finalCountCounter (counts (referenceFrame ! idx)))
                   else pick_loop match_to_catalog_sky referenceFrame sortStars thresholdCounts
                          variabilityMax n js
                          (compFile, np_add tempCountCounter (counts (referenceFrame ! idx)),
                           finalCountCounter))"

text \<open>
  The function returns the output file and the number of rows written to it; the
  model returns the rows in place of the file. \<open>comparisons[0]\<close> needs a frame;
  \<open>sortStars[:,2]\<close> needs a two-dimensional array, and with no candidate
  \<open>sortStars\<close> is the empty one-dimensional array. With exactly one candidate
  \<open>sortStars\<close> has shape (1, 13) and is wrapped in a list, so that in the loop
  \<open>sortStars[j][0]\<close> is the whole row and \<open>sortStars[j][1]\<close> raises IndexError.
\<close>

definition final_candidate_catalogue ::
  "matcher \<Rightarrow> frame list \<Rightarrow> sort_star list \<Rightarrow> npfloat \<Rightarrow> npfloat \<Rightarrow> py_error + comp_row list \<times> nat" where
  "final_candidate_catalogue match_to_catalog_sky comparisons sortStars thresholdCounts variabilityMax =
     (case comparisons of
        [] \<Rightarrow> Inl IndexError
      | referenceFrame # _ \<Rightarrow>
          if sortStars = [] then Inl IndexError
          else let sortorder = np_argsort (map s_std sortStars)
               in if length sortStars = 1 then Inl IndexError
                  else (case pick_loop match_to_catalog_sky referenceFrame sortStars thresholdCounts
                               variabilityMax (length sortorder) sortorder ([], Fin 0, Fin 0) of
                          Inl e \<Rightarrow> Inl e
                        | Inr (compFile, tempCountCounter, finalCountCounter) \<Rightarrow>
                            Inr (compFile, length compFile)))"

text \<open>
  The selection in the words of the specification: the flux a candidate adds, the
  running sum before the candidate at position \<open>k\<close> of the walk, and whether that
  candidate is accepted.
\<close>

definition flux_of :: "matcher \<Rightarrow> frame \<Rightarrow> sort_star list \<Rightarrow> nat \<Rightarrow> npfloat" where
  "flux_of match_to_catalog_sky referenceFrame sortStars j =
     counts (referenceFrame !
       fst (match_to_catalog_sky (s_ra (sortStars ! j), s_dec (sortStars ! j)) (coords referenceFrame)))"

definition running_sum :: "(nat \<Rightarrow> npfloat) \<Rightarrow> nat list \<Rightarrow> nat \<Rightarrow> npfloat" where
  "running_sum flux sortorder k = foldl np_add (Fin 0) (map flux (take k sortorder))"

definition accepted_at ::
  "(nat \<Rightarrow> npfloat) \<Rightarrow> sort_star list \<Rightarrow> npfloat \<Rightarrow> npfloat \<Rightarrow> nat list \<Rightarrow> nat \<Rightarrow> bool" where
  "accepted_at flux sortStars thresholdCounts variabilityMax sortorder k =
     (np_lt (running_sum flux sortorder k) thresholdCounts \<and>
      (length sortorder = 1 \<or> np_lt (s_std (sortStars ! (sortorder ! k))) variabilityMax))"

definition comp_row_of :: "sort_star list \<Rightarrow> nat \<Rightarrow> comp_row" where
  "comp_row_of sortStars j = (s_ra (sortStars ! j), s_dec (sortStars ! j), s_std (sortStars ! j))"

subsection \<open>Target exclusion in \<open>catalogue_call\<close>\<close>

text \<open>A row of a catalogue result: position, magnitude and magnitude error.\<close>

record cat_entry =
  cat_ra :: npfloat
  cat_dec :: npfloat
  cat_mag :: npfloat
  cat_emag :: npfloat

text \<open>
  \<open>where(cond)\<close> with one argument returns a tuple holding one array, the indices at
  which the condition is true. The tuple is modelled as the list of its arrays.
\<close>

definition np_where :: "bool list \<Rightarrow> nat list list" where
  "np_where cond = [filter (\<lambda>i. cond ! i) [0..<length cond]]"

text \<open>
  Python's \<open>a and b\<close> on objects: \<open>b\<close> when \<open>a\<close> is true, else \<open>a\<close>. A tuple is true
  when it is not empty.
\<close>

definition tuple_truth :: "'a list \<Rightarrow> bool" where
  "tuple_truth t = (t \<noteq> [])"

definition py_and :: "'a list \<Rightarrow> 'a list \<Rightarrow> 'a list" where
  "py_and a b = (if tuple_truth a then b else a)"

text \<open>\<open>resp[t]\<close> for a tuple holding one index array: the rows at these indices.\<close>

definition table_rows :: "'r list \<Rightarrow> nat list list \<Rightarrow> 'r list" where
  "table_rows resp t = map (\<lambda>i. resp ! i) (hd t)"

text \<open>
  The body of \<open>for tg in targets\<close>, and the loop. Of a target row the code reads
  column 0 and column 1, its right ascension and declination.
\<close>

definition exclude_target :: "cat_entry list \<Rightarrow> npfloat \<times> npfloat \<Rightarrow> cat_entry list" where
  "exclude_target resp tg =
     table_rows resp
       (py_and
          (np_where (map (\<lambda>r. np_gt (np_abs (np_sub (cat_ra r) (fst tg))) (Fin 0.0014)) resp))
          (np_where (map (\<lambda>r. np_gt (np_abs (np_sub (cat_dec r) (snd tg))) (Fin 0.0014)) resp)))"

definition exclude_targets :: "cat_entry list \<Rightarrow> (npfloat \<times> npfloat) list \<Rightarrow> cat_entry list" where
  "exclude_targets resp targets = foldl exclude_target resp targets"

subsection \<open>The crowding loop of \<open>catalogue_call\<close>\<close>

text \<open>
  The angular separation of two catalogue entries, in arcseconds, is astropy's and a
  parameter of the model. \<open>fileRaDec.match_to_catalog_sky(fileRaDec, nthneighbor=2)\<close>
  matches the catalogue against itself and gives, for every entry, the separation to
  its second nearest entry: the nearest is the entry itself, so this is the closest
  match that is not itself, the least separation to another entry.
\<close>

definition others :: "nat \<Rightarrow> 'a list \<Rightarrow> 'a list" where
  "others q xs = take q xs @ drop (Suc q) xs"

definition d2d_of :: "(cat_entry \<Rightarrow> cat_entry \<Rightarrow> real) \<Rightarrow> cat_entry list \<Rightarrow> nat \<Rightarrow> real" where
  "d2d_of separation resp q = min_list (map (separation (resp ! q)) (others q resp))"

text \<open>The \<open>for q in range(len(d2d))\<close> loop that collects \<open>catReject\<close>.\<close>

definition catReject_of :: "(cat_entry \<Rightarrow> cat_entry \<Rightarrow> real) \<Rightarrow> real \<Rightarrow> cat_entry list \<Rightarrow> nat list" where
  "catReject_of separation closerejectd resp =
     filter (\<lambda>q. d2d_of separation resp q < closerejectd) [0..<length resp]"

lemma catReject_of_bound: "q \<in> set (catReject_of separation closerejectd resp) \<Longrightarrow> q < length resp"
  by (simp add: catReject_of_def)

lemma del_rows_shorter:
  assumes "q \<in> set idxs" and "q < length resp"
  shows "length (nths resp (- set idxs)) < length resp"
proof -
  have "{i. i < length resp \<and> i \<in> - set idxs} \<subset> {i. i < length resp}"
    using assms by auto
  then have "card {i. i < length resp \<and> i \<in> - set idxs} < card {i. i < length resp}"
    by (intro psubset_card_mono) simp_all
  then show ?thesis by (simp add: length_nths)
qed

text \<open>
  The \<open>while True\<close> loop; \<open>del resp[catReject]\<close> removes the rows at the collected
  indices. Matching against an empty catalogue raises ValueError, and a catalogue of
  one entry has no second neighbour: the index astropy gets for it is past the end
  (IndexError).
\<close>

function crowding_loop ::
  "(cat_entry \<Rightarrow> cat_entry \<Rightarrow> real) \<Rightarrow> real \<Rightarrow> cat_entry list \<Rightarrow> py_error + cat_entry list" where
  "crowding_loop separation closerejectd resp =
     (if resp = [] then Inl ValueError
      else if length resp = 1 then Inl IndexError
      else if catReject_of separation closerejectd resp = [] then Inr resp
      else crowding_loop separation closerejectd
             (nths resp (- set (catReject_of separation closerejectd resp))))"
  by pat_completeness auto
termination
proof (relation "measure (\<lambda>(separation, closerejectd, resp). length resp)", goal_cases)
  case 1
  show ?case by simp
next
  case (2 separation closerejectd resp)
  then obtain q where q: "q \<in> set (catReject_of separation closerejectd resp)"
    by (cases "catReject_of separation closerejectd resp") auto
  from del_rows_shorter [OF q catReject_of_bound [OF q]] show ?case by simp
qed

declare crowding_loop.simps [simp del]

subsection \<open>The filter table of \<open>find_comparisons_calibrated\<close>\<close>

text \<open>
  \<open>FILTERS\<close>: for each filter band, the catalogues that hold it, in the order the
  dictionary lists them, each with its magnitude column and its error column.
\<close>

type_synonym columns = "string \<times> string"

definition FILTERS :: "(string \<times> (string \<times> columns) list) list" where
  "FILTERS =
     [(''B'', [(''APASS'', (''Bmag'', ''e_Bmag''))]),
      (''V'', [(''APASS'', (''Vmag'', ''e_Vmag''))]),
      (''up'', [(''SDSS'', (''umag'', ''e_umag'')),
                (''SkyMapper'', (''uPSF'', ''e_uPSF'')),
                (''PanSTARRS'', (''umag'', ''e_umag''))]),
      (''gp'', [(''SDSS'', (''gmag'', ''e_mag'')),
                (''SkyMapper'', (''gPSF'', ''e_gPSF'')),
                (''PanSTARRS'', (''gmag'', ''e_gmag''))]),
      (''rp'', [(''SDSS'', (''rmag'', ''e_rmag'')),
                (''SkyMapper'', (''rPSF'', ''e_rPSF'')),
                (''PanSTARRS'', (''rmag'', ''e_rmag''))]),
      (''ip'', [(''SDSS'', (''imag'', ''e_imag'')),
                (''SkyMapper'', (''iPSF'', ''e_iPSF'')),
                (''PanSTARRS'', (''imag'', ''e_imag''))]),
      (''zs'', [(''SDSS'', (''zmag'', ''e_zmag'')),
                (''SkyMapper'', (''zPSF'', ''e_zPSF'')),
                (''PanSTARRS'', (''zmag'', ''e_zmag''))])]"

text \<open>\<open>d[key]\<close> on a dictionary: a missing key raises KeyError.\<close>

definition dict_getitem :: "(string \<times> 'v) list \<Rightarrow> string \<Rightarrow> py_error + 'v" where
  "dict_getitem d k = (case map_of d k of None \<Rightarrow> Inl (KeyError k) | Some v \<Rightarrow> Inr v)"

text \<open>
  \<open>except IndexError\<close>: whether the clause catches an exception. KeyError and
  IndexError are both subclasses of LookupError, and neither is a subclass of the
  other; none of the other exceptions of the model is an IndexError either.
\<close>

fun caught_by_except_IndexError :: "py_error \<Rightarrow> bool" where
  "caught_by_except_IndexError IndexError = True"
| "caught_by_except_IndexError _ = False"

text \<open>
  The \<open>try\<close> statement that reads the catalogues of the requested band:
  \<open>catalogues = FILTERS[filterCode]\<close>, with
  \<open>except IndexError: raise AstrosourceException(...)\<close>.
\<close>

definition catalogues_of :: "string \<Rightarrow> py_error + (string \<times> columns) list" where
  "catalogues_of filterCode =
     (case dict_getitem FILTERS filterCode of
        Inl e \<Rightarrow>
          if caught_by_except_IndexError e
          then Inl (AstrosourceException (filterCode @ '' is not accepted at present''))
          else Inl e
      | Inr catalogues \<Rightarrow> Inr catalogues)"

subsection \<open>The calibration of the frames in \<open>find_comparisons_calibrated\<close>\<close>

text \<open>
  \<open>calibCompUsed\<close> holds one line per frame, and in each line the calibrated magnitude
  of every comparison star. \<open>calibCompUsed[:,r]\<close> is the column of star \<open>r\<close>.
\<close>

definition column :: "npfloat list list \<Rightarrow> nat \<Rightarrow> npfloat list" where
  "column calibCompUsed r = map (\<lambda>line. line ! r) calibCompUsed"

text \<open>\<open>pow(n, 0.5)\<close> for a length \<open>n\<close>.\<close>

definition pow_half :: "nat \<Rightarrow> npfloat" where
  "pow_half n = Fin (sqrt (real n))"

text \<open>
  \<open>compUsedFile\<close> holds the rows of \<open>compsUsed.csv\<close>: a one-dimensional array of three
  numbers when the file has one row, and a table with three columns otherwise.
\<close>

datatype comps_used = One_row comp_row | Rows "comp_row list"

text \<open>
  \<open>find_comparisons_calibrated\<close> reads \<open>compUsedFile\<close> and never assigns it, so the
  name is looked up among the names the module binds at its top level. Those are its
  imports, \<open>logger\<close> and its functions: the module binds no table.
\<close>

definition module_tables :: "(string \<times> comps_used) list" where
  "module_tables = []"

definition global_table :: "string \<Rightarrow> py_error + comps_used" where
  "global_table name =
     (case map_of module_tables name of None \<Rightarrow> Inl (NameError name) | Some t \<Rightarrow> Inr t)"

text \<open>
  A row of \<open>calibStands\<close>: position, variability score, catalogue magnitude and its
  error.
\<close>

record calib_stand =
  cs_ra :: npfloat
  cs_dec :: npfloat
  cs_std :: npfloat
  cs_mag :: npfloat
  cs_emag :: npfloat

text \<open>
  The conversion of a photometry file to instrumental magnitudes: column 5 becomes
  \<open>1.0857 * (photFile[r,5] / photFile[r,4])\<close>, then column 4 becomes
  \<open>-2.5 * log10(photFile[r,4])\<close>.
\<close>

definition to_magnitudes :: "frame \<Rightarrow> frame" where
  "to_magnitudes photFile =
     map (\<lambda>r. r\<lparr>counts_err := np_mul (Fin 1.0857) (np_div (counts_err r) (counts r)),
                counts := np_mul (Fin (- 2.5)) (np_log10 (counts r))\<rparr>) photFile"

text \<open>
  \<open>photFile[idx,4]\<close> for the row \<open>idx\<close> that \<open>match_to_catalog_sky\<close> finds nearest to a
  position. Matching against an empty catalogue raises ValueError.
\<close>

definition mag_at :: "matcher \<Rightarrow> frame \<Rightarrow> npfloat \<times> npfloat \<Rightarrow> py_error + npfloat" where
  "mag_at match_to_catalog_sky photFile c =
     (if photFile = [] then Inl ValueError
      else let idx = fst (match_to_catalog_sky c (coords photFile))
           in if length photFile \<le> idx then Inl IndexError
              else Inr (counts (photFile ! idx)))"

text \<open>
  The loop over the calibration standards that collects \<open>tempDiff\<close>, the catalogue
  magnitude minus the instrumental magnitude of the matched row.
\<close>

fun tempDiff_loop ::
  "matcher \<Rightarrow> frame \<Rightarrow> calib_stand list \<Rightarrow> npfloat list \<Rightarrow> py_error + npfloat list" where
  "tempDiff_loop match_to_catalog_sky photFile [] tempDiff = Inr tempDiff"
| "tempDiff_loop match_to_catalog_sky photFile (s # calibStands) tempDiff =
     (case mag_at match_to_catalog_sky photFile (cs_ra s, cs_dec s) of
        Inl e \<Rightarrow> Inl e
      | Inr m \<Rightarrow>
          tempDiff_loop match_to_catalog_sky photFile calibStands (tempDiff @ [np_sub (cs_mag s) m]))"

text \<open>
  The positions of the comparison stars in \<open>compUsedFile\<close>, and the loop that collects
  \<open>lineCompUsed\<close>, the calibrated magnitude of the row matched to each of them.
\<close>

fun used_positions :: "comps_used \<Rightarrow> (npfloat \<times> npfloat) list" where
  "used_positions (One_row (a, b, c)) = [(a, b)]"
| "used_positions (Rows rows) = map (\<lambda>(a, b, c). (a, b)) rows"

fun lineCompUsed_loop ::
  "matcher \<Rightarrow> frame \<Rightarrow> (npfloat \<times> npfloat) list \<Rightarrow> npfloat list \<Rightarrow> py_error + npfloat list" where
  "lineCompUsed_loop match_to_catalog_sky photFile [] lineCompUsed = Inr lineCompUsed"
| "lineCompUsed_loop match_to_catalog_sky photFile (p # ps) lineCompUsed =
     (case mag_at match_to_catalog_sky photFile p of
        Inl e \<Rightarrow> Inl e
      | Inr m \<Rightarrow> lineCompUsed_loop match_to_catalog_sky photFile ps (lineCompUsed @ [m]))"

text \<open>
  The body of \<open>for file in fileList\<close> on a loaded photometry file: the conversion, the
  zero point \<open>tempZP = median(tempDiff)\<close>, the shift of every magnitude by it, and then
  the comparison stars, which starts by reading \<open>compUsedFile\<close>.
\<close>

definition calibrate_file :: "matcher \<Rightarrow> calib_stand list \<Rightarrow> frame \<Rightarrow> py_error + npfloat list" where
  "calibrate_file match_to_catalog_sky calibStands photFile =
     (case tempDiff_loop match_to_catalog_sky (to_magnitudes photFile) calibStands [] of
        Inl e \<Rightarrow> Inl e
      | Inr tempDiff \<Rightarrow>
          let tempZP = np_median tempDiff;
              shifted = map (\<lambda>r. r\<lparr>counts := np_add (counts r) tempZP\<rparr>) (to_magnitudes photFile)
          in (case global_table ''compUsedFile'' of
                Inl e \<Rightarrow> Inl e
              | Inr compUsedFile \<Rightarrow>
                  lineCompUsed_loop match_to_catalog_sky shifted (used_positions compUsedFile) []))"

fun calibrate_files ::
  "matcher \<Rightarrow> calib_stand list \<Rightarrow> frame list \<Rightarrow> npfloat list list \<Rightarrow> py_error + npfloat list list" where
  "calibrate_files match_to_catalog_sky calibStands [] calibCompUsed = Inr calibCompUsed"
| "calibrate_files match_to_catalog_sky calibStands (photFile # files) calibCompUsed =
     (case calibrate_file match_to_catalog_sky calibStands photFile of
        Inl e \<Rightarrow> Inl e
      | Inr lineCompUsed \<Rightarrow>
          calibrate_files match_to_catalog_sky calibStands files (calibCompUsed @ [lineCompUsed]))"

text \<open>
  A row of \<open>finalCompUsedFile\<close>: position, variability score, calibrated magnitude and
  its uncertainty.
\<close>

type_synonym final_row = "npfloat \<times> npfloat \<times> npfloat \<times> npfloat \<times> npfloat"

text \<open>
  The loop \<open>for r in range(len(calibCompUsed[0,:]))\<close>: it appends
  \<open>std(calibCompUsed[:,r])\<close> to \<open>sumStd\<close> and a row to \<open>finalCompUsedFile\<close>, for which it
  reads \<open>compUsedFile\<close> again.
\<close>

fun summary_loop ::
  "calib_stand list \<Rightarrow> npfloat list list \<Rightarrow> nat list \<Rightarrow> final_row list \<times> npfloat list \<Rightarrow>
   py_error + final_row list \<times> npfloat list" where
  "summary_loop calibStands calibCompUsed [] acc = Inr acc"
| "summary_loop calibStands calibCompUsed (r # rs) (finalCompUsedFile, sumStd) =
     (case global_table ''compUsedFile'' of
        Inl e \<Rightarrow> Inl e
      | Inr (One_row (a, b, c)) \<Rightarrow>
          (case calibStands of
             [] \<Rightarrow> Inl IndexError
           | s # _ \<Rightarrow>
               summary_loop calibStands calibCompUsed rs
                 (finalCompUsedFile @ [(a, b, c, np_median (column calibCompUsed r), cs_emag s)],
                  sumStd @ [np_std (column calibCompUsed r)]))
      | Inr (Rows rows) \<Rightarrow>
          if length rows \<le> r then Inl IndexError
          else (case rows ! r of
                  (a, b, c) \<Rightarrow>
                    summary_loop calibStands calibCompUsed rs
                      (finalCompUsedFile @
                         [(a, b, c, np_median (column calibCompUsed r), np_std (column calibCompUsed r))],
                       sumStd @ [np_std (column calibCompUsed r)])))"

text \<open>
  The aggregation after the loop over the files:
  \<open>errCalib = median(sumStd) / pow(len(calibCompUsed[0,:]), 0.5)\<close>, written to
  \<open>calibrationErrors.txt\<close>; the function returns \<open>finalCompUsedFile\<close>. The model returns
  both. Without a frame, \<open>calibCompUsed[0,:]\<close> raises IndexError.
\<close>

definition calibration_summary ::
  "calib_stand list \<Rightarrow> npfloat list list \<Rightarrow> py_error + final_row list \<times> npfloat" where
  "calibration_summary calibStands calibCompUsed =
     (case calibCompUsed of
        [] \<Rightarrow> Inl IndexError
      | line0 # _ \<Rightarrow>
          (case summary_loop calibStands calibCompUsed [0..<length line0] ([], []) of
             Inl e \<Rightarrow> Inl e
           | Inr (finalCompUsedFile, sumStd) \<Rightarrow>
               Inr (finalCompUsedFile, np_div (np_median sumStd) (pow_half (length line0)))))"

text \<open>
  \<open>find_comparisons_calibrated\<close> from the calibration of the files on (lines 476 to
  579), given the calibration standards and the photometry files as loaded.
\<close>

definition find_comparisons_calibrated_tail ::
  "matcher \<Rightarrow> calib_stand list \<Rightarrow> frame list \<Rightarrow> py_error + final_row list \<times> npfloat" where
  "find_comparisons_calibrated_tail match_to_catalog_sky calibStands photFiles =
     (case calibrate_files match_to_catalog_sky calibStands photFiles [] of
        Inl e \<Rightarrow> Inl e
      | Inr calibCompUsed \<Rightarrow> calibration_summary calibStands calibCompUsed)"

section \<open>Example inputs\<close>

text \<open>
  A photometry row for examples: right ascension, declination and flux counts, the
  other columns zero.
\<close>

definition star :: "real \<Rightarrow> real \<Rightarrow> real \<Rightarrow> phot_row" where
  "star r d c =
     \<lparr>ra = Fin r, dec = Fin d, col2 = Fin 0, col3 = Fin 0, counts = Fin c, counts_err = Fin 0\<rparr>"

text \<open>
  Two frames of ten stars. Nine stars have flux counts 11 in the first frame and 110
  in the second, the tenth has 900 and 9; both ensemble counts are 999. The nine have
  variability score 1.25, the tenth 2.5, above \<open>median + 2.5 * std = 2.1875\<close>.
  \<open>steady_frames\<close> is the same array without the tenth star.
\<close>

definition outlier_frames :: "frame list" where
  "outlier_frames =
     [map (\<lambda>i. star (150 + real i) 20 11) [0..<9] @ [star 160 20 900],
      map (\<lambda>i. star (150 + real i) 20 110) [0..<9] @ [star 160 20 9]]"

definition steady_frames :: "frame list" where
  "steady_frames =
     [map (\<lambda>i. star (150 + real i) 20 11) [0..<9],
      map (\<lambda>i. star (150 + real i) 20 110) [0..<9]]"

text \<open>
  An array on which the rejection test runs and rejects nothing: two frames of two
  stars whose flux counts swap between the frames, so both scores are 1.25 and none is
  above the cutoff.
\<close>

definition balanced_frames :: "frame list" where
  "balanced_frames =
     [[star 150 20 11, star 151 20 110],
      [star 150 20 110, star 151 20 11]]"

text \<open>A frame of two candidates, and a frame of three with their scores.\<close>

definition two_stars :: frame where
  "two_stars = [star 150 20 11, star 151 20 110]"

definition three_stars :: frame where
  "three_stars = [star 150 20 80, star 151 20 70, star 152 20 60]"

definition three_scores :: "sort_star list" where
  "three_scores =
     [\<lparr>s_ra = Fin 150, s_dec = Fin 20, s_std = Fin (3 / 10), s_reserved = replicate 10 (Fin 0)\<rparr>,
      \<lparr>s_ra = Fin 151, s_dec = Fin 20, s_std = Fin (1 / 10), s_reserved = replicate 10 (Fin 0)\<rparr>,
      \<lparr>s_ra = Fin 152, s_dec = Fin 20, s_std = Fin (1 / 5), s_reserved = replicate 10 (Fin 0)\<rparr>]"

text \<open>
  A matcher for examples: the index of the first catalogue entry with exactly the given
  position, at separation zero (the nearest entry when there is one).
\<close>

definition exact_match :: matcher where
  "exact_match c catalogue = (length (takeWhile (\<lambda>x. x \<noteq> c) catalogue), Fin 0)"

text \<open>
  A separation for examples: for two entries on the celestial equator the angular
  separation is the difference of their right ascensions, 3600 arcseconds per degree.
\<close>

definition equator_separation :: "cat_entry \<Rightarrow> cat_entry \<Rightarrow> real" where
  "equator_separation a b =
     (case (cat_ra a, cat_ra b) of (Fin x, Fin y) \<Rightarrow> 3600 * \<bar>x - y\<bar> | _ \<Rightarrow> 0)"

definition equator_entry :: "real \<Rightarrow> cat_entry" where
  "equator_entry x = \<lparr>cat_ra = Fin x, cat_dec = Fin 0, cat_mag = Fin 12, cat_emag = Fin 0\<rparr>"

text \<open>
  A matcher for positions on the celestial equator, where the angular separation of two
  positions is the difference of their right ascensions, 3600 arcseconds per degree:
  the index of the nearest catalogue position and the separation to it.
\<close>

definition ra_gap :: "npfloat \<times> npfloat \<Rightarrow> npfloat \<times> npfloat \<Rightarrow> real" where
  "ra_gap p q = (case (fst p, fst q) of (Fin x, Fin y) \<Rightarrow> 3600 * \<bar>x - y\<bar> | _ \<Rightarrow> 0)"

definition equator_match :: matcher where
  "equator_match c catalogue =
     (let ds = map (ra_gap c) catalogue
      in (length (takeWhile (\<lambda>d. d \<noteq> min_list ds) ds), Fin (min_list ds)))"

text \<open>Two candidates on the equator, one degree apart.\<close>

definition equator_pair :: frame where
  "equator_pair = [star 150 0 11, star 151 0 110]"

section \<open>Properties\<close>

subsection \<open>\<open>remove_stars_targets\<close>\<close>

lemma np_mask_all_True: "np_mask c (replicate (length c) True) = Inr c"
proof -
  have "map fst (filter snd (zip c (replicate (length c) True))) = c"
    by (induction c) simp_all
  then show ?thesis by (simp add: np_mask_def)
qed

lemma mask_frames_all_True:
  "list_all (\<lambda>c. length c = n) cs \<Longrightarrow> mask_frames cs (replicate n True) = Inr cs"
proof (induction cs)
  case Nil
  show ?case by simp
next
  case (Cons c cs)
  then have "length c = n" and "mask_frames cs (replicate n True) = Inr cs" by simp_all
  then show ?case using np_mask_all_True [of c] by simp
qed

lemma mask_frames_all_True_result:
  "mask_frames photlist (replicate n True) = Inr out \<Longrightarrow> out = photlist"
proof (induction photlist arbitrary: out)
  case Nil
  then show ?case by simp
next
  case (Cons c cs)
  from Cons.prems have len: "n = length c"
    by (simp add: np_mask_def split: if_splits)
  with Cons.prems np_mask_all_True [of c] obtain cs' where
    "mask_frames cs (replicate n True) = Inr cs'" and "out = c # cs'"
    by (auto split: sum.splits)
  with Cons.IH show ?case by simp
qed

lemma varStarReject_unbound: "name_lookup ''varStarReject'' = Inl (NameError ''varStarReject'')"
  by (simp add: name_lookup_def bound_names_def)

lemma parentPath_unbound: "name_lookup ''parentPath'' = Inl (NameError ''parentPath'')"
  by (simp add: name_lookup_def bound_names_def)

lemma vsx_loop_match:
  assumes "compFile \<noteq> []"
    and "\<exists>v\<in>set vs. variable_star_test (snd (m v (coords compFile))) acceptDistance"
  shows "vsx_loop m acceptDistance compFile vs rowmask = Inl (NameError ''varStarReject'')"
  using assms(2)
proof (induction vs)
  case Nil
  then show ?case by simp
next
  case (Cons v vs)
  obtain idx d where md: "m v (coords compFile) = (idx, d)"
    by (cases "m v (coords compFile)")
  show ?case
  proof (cases "variable_star_test d acceptDistance")
    case True
    then show ?thesis using assms(1)
      by (simp add: varStarReject_unbound md)
  next
    case False
    with Cons.prems md
    have "\<exists>v\<in>set vs. variable_star_test (snd (m v (coords compFile))) acceptDistance"
      by simp
    from Cons.IH [OF this] False assms(1) show ?thesis
      by (simp add: md)
  qed
qed

lemma vsx_loop_no_match:
  assumes "compFile \<noteq> []"
    and "\<forall>v\<in>set vs. \<not> variable_star_test (snd (m v (coords compFile))) acceptDistance"
  shows "vsx_loop m acceptDistance compFile vs rowmask = Inr rowmask"
  using assms(2)
proof (induction vs)
  case Nil
  show ?case by simp
next
  case (Cons v vs)
  obtain idx d where md: "m v (coords compFile) = (idx, d)"
    by (cases "m v (coords compFile)")
  with Cons show ?case using assms(1) by simp
qed

text \<open>
  Claim C9 (exactly one candidate is handled with a warning and is not an error that
  aborts the run): the code ends the call with an exception. For one frame holding one
  star and no variable star in the field, the call raises: the single-star branch
  reads \<open>parentPath\<close>, which is not bound in the function.
\<close>

theorem single_star_call_raises:
  "remove_stars_targets exact_match [] [[star 150 20 5]] (Fin 1) = Inl (NameError ''parentPath'')"
  by (simp add: remove_stars_targets_def np_mask_def parentPath_unbound)

text \<open>
  Claim C9 as amended: when the first frame holds exactly one candidate,
  \<open>remove_stars_targets\<close> never returns a frame set; the call ends with an exception.
\<close>

theorem single_candidate_always_raises:
  assumes "length compFile = 1"
  shows "\<exists>e. remove_stars_targets match_to_catalog_sky variableResult (compFile # rest)
               acceptDistance = Inl e"
  using assms
  by (simp add: remove_stars_targets_def parentPath_unbound split: sum.splits)

theorem single_candidate_always_raises_witness:
  "length [star 150 20 5] = 1 \<and>
   (\<exists>e. remove_stars_targets exact_match [(Fin 150, Fin 20)] [[star 150 20 5], [star 150 20 6]]
          (Fin 1) = Inl e)"
proof -
  have one: "length [star 150 20 5] = 1" by simp
  from single_candidate_always_raises [OF one] one show ?thesis by blast
qed

text \<open>
  When the first frame has a candidate and the test of the code succeeds for at least
  one entry of the variable star catalogue, the call fails with NameError for
  \<open>varStarReject\<close>; and when the call returns, the test has failed for every entry and
  the frames are returned unfiltered: no call ever excludes a candidate.
\<close>

lemma varStarReject_NameError_when_test_succeeds:
  assumes "compFile \<noteq> []"
  shows "((\<exists>v\<in>set variableResult.
             variable_star_test (snd (match_to_catalog_sky v (coords compFile))) acceptDistance) \<longrightarrow>
          remove_stars_targets match_to_catalog_sky variableResult (compFile # rest) acceptDistance =
            Inl (NameError ''varStarReject'')) \<and>
         (\<forall>out. remove_stars_targets match_to_catalog_sky variableResult (compFile # rest)
                  acceptDistance = Inr out \<longrightarrow>
            (\<forall>v\<in>set variableResult.
               \<not> variable_star_test (snd (match_to_catalog_sky v (coords compFile))) acceptDistance) \<and>
            out = compFile # rest)"
proof (cases "\<exists>v\<in>set variableResult.
    variable_star_test (snd (match_to_catalog_sky v (coords compFile))) acceptDistance")
  case True
  from vsx_loop_match [of compFile variableResult match_to_catalog_sky acceptDistance, OF assms True]
  have "remove_stars_targets match_to_catalog_sky variableResult (compFile # rest) acceptDistance =
      Inl (NameError ''varStarReject'')"
    by (simp add: remove_stars_targets_def)
  with True show ?thesis by simp
next
  case False
  then have none: "\<forall>v\<in>set variableResult.
      \<not> variable_star_test (snd (match_to_catalog_sky v (coords compFile))) acceptDistance"
    by simp
  have "out = compFile # rest"
    if "remove_stars_targets match_to_catalog_sky variableResult (compFile # rest) acceptDistance =
      Inr out" for out
  proof -
    from that
      vsx_loop_no_match [of compFile variableResult match_to_catalog_sky acceptDistance, OF assms none]
    have "mask_frames (compFile # rest) (replicate (length compFile) True) = Inr out"
      by (simp add: remove_stars_targets_def split: sum.splits if_splits)
    then show ?thesis by (rule mask_frames_all_True_result)
  qed
  with none False show ?thesis by blast
qed

text \<open>
  A catalogue entry at the very position of a candidate: the separation is zero, the
  test is \<open>0 < 1\<close>, and the call fails with NameError.
\<close>

lemma variable_star_at_candidate_raises_NameError:
  "two_stars \<noteq> [] \<and>
   variable_star_test (snd (exact_match (Fin 150, Fin 20) (coords two_stars))) (Fin 1) \<and>
   remove_stars_targets exact_match [(Fin 150, Fin 20)] [two_stars] (Fin 1) =
     Inl (NameError ''varStarReject'')"
proof -
  have ne: "two_stars \<noteq> []" by (simp add: two_stars_def)
  have test: "variable_star_test (snd (exact_match (Fin 150, Fin 20) (coords two_stars))) (Fin 1)"
    by (simp add: variable_star_test_def exact_match_def bool_value_def)
  then have "\<exists>v\<in>set [(Fin 150, Fin 20)].
      variable_star_test (snd (exact_match v (coords two_stars))) (Fin 1)"
    by simp
  with varStarReject_NameError_when_test_succeeds [OF ne, of "[(Fin 150, Fin 20)]" exact_match "Fin 1" "[]"]
  have "remove_stars_targets exact_match [(Fin 150, Fin 20)] [two_stars] (Fin 1) =
     Inl (NameError ''varStarReject'')"
    by blast
  with ne test show ?thesis by simp
qed


subsection \<open>\<open>calculate_comparison_variation\<close>\<close>

lemma np_eq_NaN [simp]: "np_eq x NaN = False"
  by (cases x) simp_all

lemma variation_loop_no_exit:
  "variation_loop comparisons fileCount js acc \<noteq> Inl SystemExit"
proof (induction js arbitrary: acc)
  case Nil
  show ?case by simp
next
  case (Cons j js)
  obtain a b where acc: "acc = (a, b)" by (cases acc)
  show ?case unfolding acc by (simp add: Let_def Cons.IH)
qed

lemma calculate_comparison_variation_never_exits:
  "calculate_comparison_variation comparisons fileCount \<noteq> Inl SystemExit"
  by (simp add: calculate_comparison_variation_def variation_loop_no_exit)

lemma variation_loop_length:
  "variation_loop cs fc js acc = Inr r \<Longrightarrow> length (fst r) = length (fst acc) + length js"
proof (induction js arbitrary: acc)
  case Nil
  then show ?case by simp
next
  case (Cons j js)
  obtain a b where acc: "acc = (a, b)" by (cases acc)
  from Cons.prems have "variation_loop cs fc js
      (a @ [np_std (compDiffMags cs fc j)],
       b @ [\<lparr>s_ra = ra (cs ! 0 ! j), s_dec = dec (cs ! 0 ! j),
              s_std = np_std (compDiffMags cs fc j), s_reserved = replicate 10 (Fin 0)\<rparr>]) = Inr r"
    unfolding acc by (simp add: Let_def)
  from Cons.IH [OF this] show ?case unfolding acc by simp
qed

lemma calc_length:
  assumes "calculate_comparison_variation cs fc = Inr (scores, ss)"
  shows "length scores = numstars cs"
proof -
  from assms have "variation_loop cs fc [0..<numstars cs] ([], []) = Inr (scores, ss)"
    by (simp add: calculate_comparison_variation_def split: if_splits)
  from variation_loop_length [OF this] show ?thesis by simp
qed

lemma variation_loop_eq:
  "variation_loop cs fc js (a, b) =
     Inr (a @ map (\<lambda>j. np_std (compDiffMags cs fc j)) js,
          b @ map (\<lambda>j. \<lparr>s_ra = ra (cs ! 0 ! j), s_dec = dec (cs ! 0 ! j),
                          s_std = np_std (compDiffMags cs fc j), s_reserved = replicate 10 (Fin 0)\<rparr>) js)"
  by (induction js arbitrary: a b) (simp_all add: Let_def)

lemma calculate_comparison_variation_scores:
  assumes "is_3d cs" and "length fc \<le> length cs"
  shows "\<exists>ss. calculate_comparison_variation cs fc =
           Inr (map (\<lambda>j. np_std (compDiffMags cs fc j)) [0..<numstars cs], ss)"
  using assms by (simp add: calculate_comparison_variation_def variation_loop_eq)

text \<open>
  Claim C3 (a NaN variability score ends the run instead of being recorded): the code
  does not do that. The guard compares the score with \<open>np.nan\<close> by \<open>==\<close>, which is
  false for every float, NaN included, so \<open>sys.exit()\<close> is never reached. One frame
  with two stars of flux counts -1 and 3 (ensemble count 2): the first star's ratio is
  negative, its magnitude and its score are NaN, and the call returns with the NaN
  recorded in \<open>stdCompStar\<close> and in \<open>sortStars\<close>.
\<close>

theorem calculate_comparison_variation_records_nan:
  "calculate_comparison_variation [[star 10 20 (- 1), star 11 21 3]] [Fin 2] =
     Inr ([NaN, Fin 0],
          [\<lparr>s_ra = Fin 10, s_dec = Fin 20, s_std = NaN, s_reserved = replicate 10 (Fin 0)\<rparr>,
           \<lparr>s_ra = Fin 11, s_dec = Fin 21, s_std = Fin 0, s_reserved = replicate 10 (Fin 0)\<rparr>])"
  by (simp add: calculate_comparison_variation_def is_3d_def numstars_def compDiffMags_def
      np_std_def np_mean_def np_sum_def np_sub_def star_def upt_rec inf_of_sign_def Let_def)

subsection \<open>The rejection loop of \<open>find_comparisons\<close>\<close>

lemma np_min_Inr_nonempty: "np_min xs = Inr m \<Longrightarrow> xs \<noteq> []"
  by (auto simp: np_min_def)

lemma np_std_pair: "np_std [Fin a, Fin b] = Fin (\<bar>a - b\<bar> / 2)"
proof -
  have m: "np_mean [Fin a, Fin b] = Fin ((a + b) / 2)"
    by (simp add: np_mean_def np_sum_def)
  have da: "\<bar>a + - ((a + b) / 2)\<bar> = \<bar>a - b\<bar> / 2" by (simp add: abs_if field_simps)
  have db: "\<bar>b + - ((a + b) / 2)\<bar> = \<bar>a - b\<bar> / 2" by (simp add: abs_if field_simps)
  have sa: "np_mul (np_abs (np_sub (Fin a) (Fin ((a + b) / 2)))) (np_abs (np_sub (Fin a) (Fin ((a + b) / 2))))
       = Fin ((\<bar>a - b\<bar> / 2) * (\<bar>a - b\<bar> / 2))"
    by (simp only: np_sub_def np_neg.simps np_add.simps np_abs.simps np_mul.simps da)
  have sb: "np_mul (np_abs (np_sub (Fin b) (Fin ((a + b) / 2)))) (np_abs (np_sub (Fin b) (Fin ((a + b) / 2))))
       = Fin ((\<bar>a - b\<bar> / 2) * (\<bar>a - b\<bar> / 2))"
    by (simp only: np_sub_def np_neg.simps np_add.simps np_abs.simps np_mul.simps db)
  have "np_std [Fin a, Fin b] =
      np_sqrt (np_mean [Fin ((\<bar>a - b\<bar> / 2) * (\<bar>a - b\<bar> / 2)), Fin ((\<bar>a - b\<bar> / 2) * (\<bar>a - b\<bar> / 2))])"
    unfolding np_std_def m Let_def list.map sa sb ..
  also have "\<dots> = np_sqrt (Fin ((\<bar>a - b\<bar> / 2) * (\<bar>a - b\<bar> / 2)))"
    by (simp add: np_mean_def np_sum_def)
  also have "\<dots> = Fin (\<bar>a - b\<bar> / 2)"
  proof -
    have "sqrt ((\<bar>a - b\<bar> / 2) * (\<bar>a - b\<bar> / 2)) = \<bar>\<bar>a - b\<bar> / 2\<bar>"
      by (rule real_sqrt_abs2)
    moreover have "0 \<le> (\<bar>a - b\<bar> / 2) * (\<bar>a - b\<bar> / 2)" by simp
    ultimately show ?thesis by (simp only: np_sqrt.simps if_True) simp
  qed
  finally show ?thesis .
qed

lemma log10_100: "log 10 100 = 2"
  using log_nat_power [of 10 10 2] by simp

lemma ntrue_replicate_True: "ntrue (replicate n True) = n"
  by (simp add: ntrue_def)

lemma np_mask_length: "np_mask c m = Inr c' \<Longrightarrow> length c' = ntrue m"
proof -
  have "length c = length m \<Longrightarrow> length (filter snd (zip c m)) = length (filter id m)"
    by (induction c m rule: list_induct2) simp_all
  then show "np_mask c m = Inr c' \<Longrightarrow> length c' = ntrue m"
    by (auto simp: np_mask_def ntrue_def split: if_splits)
qed

lemma mask_frames_shape:
  "mask_frames cs m = Inr cs' \<Longrightarrow>
     length cs' = length cs \<and> list_all (\<lambda>c. length c = ntrue m) cs'"
proof (induction cs arbitrary: cs')
  case Nil
  then show ?case by simp
next
  case (Cons c cs)
  from Cons.prems obtain c' rest where c': "np_mask c m = Inr c'"
    and rest: "mask_frames cs m = Inr rest" and out: "cs' = c' # rest"
    by (auto split: sum.splits)
  from Cons.IH [OF rest] np_mask_length [OF c'] out show ?case by simp
qed

lemma mask_frames_defined:
  "list_all (\<lambda>c. length c = length m) cs \<Longrightarrow> \<exists>cs'. mask_frames cs m = Inr cs'"
  by (induction cs) (auto simp: np_mask_def)

lemma mask_frames_mismatch:
  assumes "cs \<noteq> []" and "length (hd cs) \<noteq> length m"
  shows "mask_frames cs m = Inl IndexError"
  using assms by (cases cs) (simp_all add: np_mask_def)

lemma partial_rejection_ends_in_error:
  assumes calc: "calculate_comparison_variation comparisons (fileCount_of comparisons) =
                   Inr (stdCompStar, sortStars)"
    and least: "np_min stdCompStar = Inr minStd"
    and pass: "rejection_pass stdMultiplier minStd stdCompStar
                 (replicate (numstars comparisons) True) = Inr starRejecter'"
    and some: "starRejecter' \<noteq> replicate (numstars comparisons) True"
    and notall: "starRejecter' \<noteq> replicate (numstars comparisons) False"
  shows "\<exists>e. find_comparisons_loop comparisons stdMultiplier variabilityMultiplier = Inl e"
proof -
  let ?n = "numstars comparisons"
  let ?fc = "fileCount_of comparisons"
  from calc have shape: "is_3d comparisons"
    by (simp add: calculate_comparison_variation_def split: if_splits)
  from rejection_pass_shrinks [OF pass]
  have len: "length starRejecter' = ?n"
    and fewer: "ntrue starRejecter' \<le> ?n"
    and same: "ntrue starRejecter' = ?n \<longrightarrow> starRejecter' = replicate ?n True"
    by (simp_all add: ntrue_replicate_True)
  from some same fewer have less: "ntrue starRejecter' < ?n" by auto
  from shape len have "list_all (\<lambda>c. length c = length starRejecter') comparisons"
    by (simp add: is_3d_def numstars_def)
  from mask_frames_defined [OF this] obtain comparisons' where
    masked: "mask_frames comparisons starRejecter' = Inr comparisons'" by blast
  from mask_frames_shape [OF masked] shape
  have ne: "comparisons' \<noteq> []" and width: "length (hd comparisons') = ntrue starRejecter'"
    by (cases comparisons'; auto simp: is_3d_def)+
  have second: "\<exists>e. rejection_cycle ?fc stdMultiplier variabilityMultiplier (Suc 0)
      comparisons' starRejecter' starRejecter' = Inl e"
  proof (cases "calculate_comparison_variation comparisons' ?fc")
    case (Inl e)
    then show ?thesis by (subst rejection_cycle.simps) simp
  next
    case (Inr r)
    obtain scores2 rows2 where r: "r = (scores2, rows2)" by (cases r)
    show ?thesis
    proof (cases "np_min scores2")
      case (Inl e)
      with Inr r show ?thesis by (subst rejection_cycle.simps) simp
    next
      case least2: (Inr minStd2)
      show ?thesis
      proof (cases "rejection_pass stdMultiplier minStd2 scores2 starRejecter'")
        case (Inl e)
        with Inr r least2 show ?thesis by (subst rejection_cycle.simps) simp
      next
        case pass2: (Inr starRejecter'')
        from rejection_pass_shrinks [OF pass2] len have "length starRejecter'' = ?n" by simp
        with width less have "length (hd comparisons') \<noteq> length starRejecter''" by simp
        from mask_frames_mismatch [OF ne this] Inr r least2 pass2 show ?thesis
          by (subst rejection_cycle.simps) simp
      qed
    qed
  qed
  have "rejection_cycle ?fc stdMultiplier variabilityMultiplier 0 comparisons
      (replicate ?n True) (replicate ?n False) =
      rejection_cycle ?fc stdMultiplier variabilityMultiplier (Suc 0)
        comparisons' starRejecter' starRejecter'"
    by (subst rejection_cycle.simps) (simp add: calc least pass masked notall)
  with second shape show ?thesis by (simp add: find_comparisons_loop_def)
qed

lemma outlier_fileCount: "fileCount_of outlier_frames = [Fin 999, Fin 999]"
  by (simp add: fileCount_of_def outlier_frames_def np_sum_def star_def upt_rec)

lemma score_steady: "(5 * log 10 (110 / 999) / 2 - 5 * log 10 (11 / 999) / 2) / 2 = 5 / 4"
proof -
  have "log 10 (10 * (11 / 999)) = log 10 10 + log 10 (11 / 999)"
    by (rule log_mult_pos) simp_all
  then have "log 10 (110 / 999) = log 10 (11 / 999) + 1" by simp
  then show ?thesis by (simp add: field_simps)
qed

lemma score_outlier: "(5 * log 10 (100 / 111) / 2 - 5 * log 10 (1 / 111) / 2) / 2 = 5 / 2"
proof -
  have "log 10 (100 * (1 / 111)) = log 10 100 + log 10 (1 / 111)"
    by (rule log_mult_pos) simp_all
  then have "log 10 (100 / 111) = log 10 (1 / 111) + 2" by (simp add: log10_100)
  then show ?thesis by (simp add: field_simps)
qed

lemma outlier_scores:
  "map (\<lambda>j. np_std (compDiffMags outlier_frames [Fin 999, Fin 999] j)) [0..<10] =
     [Fin (5 / 4), Fin (5 / 4), Fin (5 / 4), Fin (5 / 4), Fin (5 / 4), Fin (5 / 4), Fin (5 / 4),
      Fin (5 / 4), Fin (5 / 4), Fin (5 / 2)]"
  by (simp add: compDiffMags_def outlier_frames_def star_def upt_rec nth_append np_std_pair
      score_steady score_outlier)

lemma steady_scores:
  "map (\<lambda>j. np_std (compDiffMags steady_frames [Fin 999, Fin 999] j)) [0..<9] =
     [Fin (5 / 4), Fin (5 / 4), Fin (5 / 4), Fin (5 / 4), Fin (5 / 4), Fin (5 / 4), Fin (5 / 4),
      Fin (5 / 4), Fin (5 / 4)]"
  by (simp add: compDiffMags_def steady_frames_def star_def upt_rec nth_append np_std_pair
      score_steady)

lemma outlier_std:
  "np_std [Fin (5 / 4), Fin (5 / 4), Fin (5 / 4), Fin (5 / 4), Fin (5 / 4), Fin (5 / 4), Fin (5 / 4),
      Fin (5 / 4), Fin (5 / 4), Fin (5 / 2)] = Fin (3 / 8)"
proof -
  have "sqrt (9 / 64) = 3 / 8" by (simp add: real_sqrt_divide)
  then show ?thesis
    by (simp add: np_std_def np_mean_def np_sum_def np_sub_def)
qed

lemma outlier_median:
  "np_median [Fin (5 / 4), Fin (5 / 4), Fin (5 / 4), Fin (5 / 4), Fin (5 / 4), Fin (5 / 4), Fin (5 / 4),
      Fin (5 / 4), Fin (5 / 4), Fin (5 / 2)] = Fin (5 / 4)"
  by (simp add: np_median_def)

lemma outlier_pass:
  "rejection_pass (Fin (5 / 2)) (Fin (5 / 4))
     [Fin (5 / 4), Fin (5 / 4), Fin (5 / 4), Fin (5 / 4), Fin (5 / 4), Fin (5 / 4), Fin (5 / 4),
      Fin (5 / 4), Fin (5 / 4), Fin (5 / 2)]
     [True, True, True, True, True, True, True, True, True, True] =
   Inr [True, True, True, True, True, True, True, True, True, False]"
  unfolding rejection_pass_def outlier_median outlier_std Let_def
  by (simp add: np_gt_def enumerate_eq_zip upt_rec)

lemma steady_pass:
  "rejection_pass (Fin (5 / 2)) (Fin (5 / 4))
     [Fin (5 / 4), Fin (5 / 4), Fin (5 / 4), Fin (5 / 4), Fin (5 / 4), Fin (5 / 4), Fin (5 / 4),
      Fin (5 / 4), Fin (5 / 4)]
     [True, True, True, True, True, True, True, True, True, False] =
   Inr [True, True, True, True, True, True, True, True, True, False]"
  by (simp add: rejection_pass_def Let_def np_median_def np_std_def np_mean_def np_sum_def np_sub_def
      np_gt_def enumerate_eq_zip upt_rec)

lemma outlier_masked:
  "mask_frames outlier_frames [True, True, True, True, True, True, True, True, True, False] =
     Inr steady_frames"
  by (simp add: outlier_frames_def steady_frames_def np_mask_def upt_rec)

lemma steady_masked:
  "mask_frames steady_frames [True, True, True, True, True, True, True, True, True, False] =
     Inl IndexError"
  by (simp add: steady_frames_def np_mask_def)

text \<open>
  Claim C1 (the rejection loop always ends with the mask at a fixed point): the code
  does not get there once a star has been rejected. The first pass on
  \<open>outlier_frames\<close> rejects the tenth star and masks the array down to nine stars;
  \<open>starRejecter\<close> keeps its ten entries, so on the second pass the mask no longer
  fits the array and \<open>c[starRejecter]\<close> raises IndexError.
\<close>

theorem loop_fails_after_a_rejection:
  "find_comparisons_loop outlier_frames (Fin (5 / 2)) (Fin (5 / 2)) = Inl IndexError"
proof -
  have shape1: "is_3d outlier_frames" and n1: "numstars outlier_frames = 10"
    by (simp_all add: is_3d_def numstars_def outlier_frames_def)
  have shape2: "is_3d steady_frames" and n2: "numstars steady_frames = 9"
    by (simp_all add: is_3d_def numstars_def steady_frames_def)
  have len1: "length outlier_frames = 2" by (simp add: outlier_frames_def)
  have len2: "length steady_frames = 2" by (simp add: steady_frames_def)
  from calculate_comparison_variation_scores [OF shape1, of "[Fin 999, Fin 999]"]
  obtain ss1 where calc1: "calculate_comparison_variation outlier_frames [Fin 999, Fin 999] =
      Inr ([Fin (5 / 4), Fin (5 / 4), Fin (5 / 4), Fin (5 / 4), Fin (5 / 4), Fin (5 / 4), Fin (5 / 4),
            Fin (5 / 4), Fin (5 / 4), Fin (5 / 2)], ss1)"
    unfolding n1 outlier_scores len1 by auto
  from calculate_comparison_variation_scores [OF shape2, of "[Fin 999, Fin 999]"]
  obtain ss2 where calc2: "calculate_comparison_variation steady_frames [Fin 999, Fin 999] =
      Inr ([Fin (5 / 4), Fin (5 / 4), Fin (5 / 4), Fin (5 / 4), Fin (5 / 4), Fin (5 / 4), Fin (5 / 4),
            Fin (5 / 4), Fin (5 / 4)], ss2)"
    unfolding n2 steady_scores len2 by auto
  have second: "rejection_cycle [Fin 999, Fin 999] (Fin (5 / 2)) (Fin (5 / 2)) (Suc 0) steady_frames
      [True, True, True, True, True, True, True, True, True, False]
      [True, True, True, True, True, True, True, True, True, False] = Inl IndexError"
    by (subst rejection_cycle.simps)
      (simp add: calc2 np_min_def np_minimum_def steady_pass steady_masked)
  have first: "rejection_cycle [Fin 999, Fin 999] (Fin (5 / 2)) (Fin (5 / 2)) 0 outlier_frames
      [True, True, True, True, True, True, True, True, True, True]
      [False, False, False, False, False, False, False, False, False, False] = Inl IndexError"
    by (subst rejection_cycle.simps)
      (simp add: calc1 np_min_def np_minimum_def outlier_pass outlier_masked second)
  have rep: "replicate 10 True = [True, True, True, True, True, True, True, True, True, True]"
    "replicate 10 False = [False, False, False, False, False, False, False, False, False, False]"
    by (simp_all add: numeral_eq_Suc)
  show ?thesis
    unfolding find_comparisons_loop_def n1 outlier_fileCount rep using shape1 first by simp
qed

text \<open>
  Claim C7 (when the first pass rejects no candidate, the loop leaves after exactly one
  pass): the code runs two passes. \<open>starRejecter\<close> starts all True and
  \<open>oldrejects\<close> all False, so after a first pass without rejection the two differ and
  the loop tries again; only the second pass finds the mask equal to its copy. One
  frame of two stars, which \<open>remove_stars_targets\<close> hands on unchanged (the variable star
  of the field is ten degrees away): both scores are 0, nothing is rejected, and the
  loop returns after two passes.
\<close>

theorem two_star_loop_runs_twice:
  "remove_stars_targets equator_match [(Fin 140, Fin 0)] [equator_pair] (Fin 1) = Inr [equator_pair] \<and>
   rejection_pass (Fin (5 / 2)) (Fin 0) [Fin 0, Fin 0] [True, True] = Inr [True, True] \<and>
   find_comparisons_loop [equator_pair] (Fin (5 / 2)) (Fin (5 / 2)) =
     Inr ([equator_pair],
          [\<lparr>s_ra = Fin 150, s_dec = Fin 0, s_std = Fin 0, s_reserved = replicate 10 (Fin 0)\<rparr>,
           \<lparr>s_ra = Fin 151, s_dec = Fin 0, s_std = Fin 0, s_reserved = replicate 10 (Fin 0)\<rparr>],
          Fin 0, 2)"
proof -
  let ?rows = "[\<lparr>s_ra = Fin 150, s_dec = Fin 0, s_std = Fin 0, s_reserved = replicate 10 (Fin 0)\<rparr>,
                \<lparr>s_ra = Fin 151, s_dec = Fin 0, s_std = Fin 0, s_reserved = replicate 10 (Fin 0)\<rparr>]"
  have handed: "remove_stars_targets equator_match [(Fin 140, Fin 0)] [equator_pair] (Fin 1) =
      Inr [equator_pair]"
    by (simp add: remove_stars_targets_def equator_pair_def equator_match_def ra_gap_def coords_def
        star_def variable_star_test_def bool_value_def np_mask_def Let_def)
  have calc: "calculate_comparison_variation [equator_pair] [Fin 121] = Inr ([Fin 0, Fin 0], ?rows)"
    by (simp add: calculate_comparison_variation_def is_3d_def numstars_def compDiffMags_def
        equator_pair_def np_std_def np_mean_def np_sum_def np_sub_def star_def upt_rec
        inf_of_sign_def Let_def)
  have pass: "rejection_pass (Fin (5 / 2)) (Fin 0) [Fin 0, Fin 0] [True, True] = Inr [True, True]"
    by (simp add: rejection_pass_def np_gt_def Let_def)
  have masked: "np_mask equator_pair [True, True] = Inr equator_pair"
    by (simp add: equator_pair_def np_mask_def)
  have least: "np_min [Fin 0, Fin 0] = Inr (Fin 0)"
    by (simp add: np_min_def np_minimum_def)
  have second: "rejection_cycle [Fin 121] (Fin (5 / 2)) (Fin (5 / 2)) (Suc 0) [equator_pair]
      [True, True] [True, True] = Inr ([equator_pair], ?rows, Fin 0, 2)"
    by (subst rejection_cycle.simps) (simp add: calc least pass masked)
  have first: "rejection_cycle [Fin 121] (Fin (5 / 2)) (Fin (5 / 2)) 0 [equator_pair]
      [True, True] [False, False] = Inr ([equator_pair], ?rows, Fin 0, 2)"
    by (subst rejection_cycle.simps) (simp add: calc least pass masked second)
  have fc: "fileCount_of [equator_pair] = [Fin 121]"
    by (simp add: fileCount_of_def equator_pair_def np_sum_def star_def)
  have n: "numstars [equator_pair] = 2" "is_3d [equator_pair]"
    by (simp_all add: numstars_def is_3d_def equator_pair_def)
  have rep: "replicate 2 True = [True, True]" "replicate 2 False = [False, False]"
    by (simp_all add: numeral_eq_Suc)
  have "find_comparisons_loop [equator_pair] (Fin (5 / 2)) (Fin (5 / 2)) =
      Inr ([equator_pair], ?rows, Fin 0, 2)"
    unfolding find_comparisons_loop_def n fc rep using n(2) first by simp
  with handed pass show ?thesis by simp
qed

text \<open>
  Claim C7 as amended: when the first pass succeeds and rejects no candidate (the mask
  it computes is still all True), the loop runs exactly two passes and returns the
  array unchanged, with the scores and \<open>variabilityMax\<close> of that array.
\<close>

theorem no_rejection_takes_two_passes:
  assumes calc: "calculate_comparison_variation comparisons (fileCount_of comparisons) =
                   Inr (stdCompStar, sortStars)"
    and least: "np_min stdCompStar = Inr minStd"
    and keep: "rejection_pass stdMultiplier minStd stdCompStar
                 (replicate (numstars comparisons) True) = Inr (replicate (numstars comparisons) True)"
  shows "find_comparisons_loop comparisons stdMultiplier variabilityMultiplier =
           Inr (comparisons, sortStars, np_mul minStd variabilityMultiplier, 2)"
proof -
  let ?n = "numstars comparisons"
  from calc have shape: "is_3d comparisons"
    by (simp add: calculate_comparison_variation_def split: if_splits)
  then have frames: "mask_frames comparisons (replicate ?n True) = Inr comparisons"
    by (simp add: is_3d_def numstars_def mask_frames_all_True)
  from calc_length [OF calc] np_min_Inr_nonempty [OF least] have pos: "0 < ?n" by (cases stdCompStar) simp_all
  then have differ: "replicate ?n True \<noteq> replicate ?n False"
    by (cases ?n) simp_all
  have second: "rejection_cycle (fileCount_of comparisons) stdMultiplier variabilityMultiplier (Suc 0)
      comparisons (replicate ?n True) (replicate ?n True) =
        Inr (comparisons, sortStars, np_mul minStd variabilityMultiplier, 2)"
    by (subst rejection_cycle.simps) (simp add: calc least keep frames)
  have "rejection_cycle (fileCount_of comparisons) stdMultiplier variabilityMultiplier 0
      comparisons (replicate ?n True) (replicate ?n False) =
        Inr (comparisons, sortStars, np_mul minStd variabilityMultiplier, 2)"
    by (subst rejection_cycle.simps) (simp add: calc least keep frames differ pos second)
  with shape show ?thesis by (simp add: find_comparisons_loop_def)
qed

lemma score_balanced: "(5 * log 10 (10 / 11) / 2 - 5 * log 10 (1 / 11) / 2) / 2 = 5 / 4"
proof -
  have "log 10 (10 * (1 / 11)) = log 10 10 + log 10 (1 / 11)"
    by (rule log_mult_pos) simp_all
  then have "log 10 (10 / 11) = log 10 (1 / 11) + 1" by simp
  then show ?thesis by (simp add: field_simps)
qed

lemma balanced_variation:
  "calculate_comparison_variation balanced_frames [Fin 121, Fin 121] =
     Inr ([Fin (5 / 4), Fin (5 / 4)],
          [\<lparr>s_ra = Fin 150, s_dec = Fin 20, s_std = Fin (5 / 4), s_reserved = replicate 10 (Fin 0)\<rparr>,
           \<lparr>s_ra = Fin 151, s_dec = Fin 20, s_std = Fin (5 / 4), s_reserved = replicate 10 (Fin 0)\<rparr>])"
  by (simp add: calculate_comparison_variation_def is_3d_def numstars_def variation_loop_eq
      compDiffMags_def balanced_frames_def star_def upt_rec np_std_pair score_balanced)

lemma balanced_pass:
  "rejection_pass (Fin (5 / 2)) (Fin (5 / 4)) [Fin (5 / 4), Fin (5 / 4)] [True, True] =
     Inr [True, True]"
  by (simp add: rejection_pass_def Let_def np_median_def np_std_pair np_gt_def
      enumerate_eq_zip upt_rec)

theorem no_rejection_takes_two_passes_witness:
  "calculate_comparison_variation balanced_frames (fileCount_of balanced_frames) =
     Inr ([Fin (5 / 4), Fin (5 / 4)],
          [\<lparr>s_ra = Fin 150, s_dec = Fin 20, s_std = Fin (5 / 4), s_reserved = replicate 10 (Fin 0)\<rparr>,
           \<lparr>s_ra = Fin 151, s_dec = Fin 20, s_std = Fin (5 / 4), s_reserved = replicate 10 (Fin 0)\<rparr>]) \<and>
   np_min [Fin (5 / 4), Fin (5 / 4)] = Inr (Fin (5 / 4)) \<and>
   rejection_pass (Fin (5 / 2)) (Fin (5 / 4)) [Fin (5 / 4), Fin (5 / 4)]
     (replicate (numstars balanced_frames) True) = Inr (replicate (numstars balanced_frames) True) \<and>
   find_comparisons_loop balanced_frames (Fin (5 / 2)) (Fin (5 / 2)) =
     Inr (balanced_frames,
          [\<lparr>s_ra = Fin 150, s_dec = Fin 20, s_std = Fin (5 / 4), s_reserved = replicate 10 (Fin 0)\<rparr>,
           \<lparr>s_ra = Fin 151, s_dec = Fin 20, s_std = Fin (5 / 4), s_reserved = replicate 10 (Fin 0)\<rparr>],
          Fin (25 / 8), 2)"
proof -
  have fc: "fileCount_of balanced_frames = [Fin 121, Fin 121]"
    by (simp add: fileCount_of_def balanced_frames_def np_sum_def star_def)
  have n: "replicate (numstars balanced_frames) True = [True, True]"
    by (simp add: numstars_def balanced_frames_def numeral_eq_Suc)
  have calc: "calculate_comparison_variation balanced_frames (fileCount_of balanced_frames) =
     Inr ([Fin (5 / 4), Fin (5 / 4)],
          [\<lparr>s_ra = Fin 150, s_dec = Fin 20, s_std = Fin (5 / 4), s_reserved = replicate 10 (Fin 0)\<rparr>,
           \<lparr>s_ra = Fin 151, s_dec = Fin 20, s_std = Fin (5 / 4), s_reserved = replicate 10 (Fin 0)\<rparr>])"
    unfolding fc by (rule balanced_variation)
  have least: "np_min [Fin (5 / 4), Fin (5 / 4)] = Inr (Fin (5 / 4))"
    by (simp add: np_min_def np_minimum_def)
  have keep: "rejection_pass (Fin (5 / 2)) (Fin (5 / 4)) [Fin (5 / 4), Fin (5 / 4)]
     (replicate (numstars balanced_frames) True) = Inr (replicate (numstars balanced_frames) True)"
    unfolding n by (rule balanced_pass)
  from no_rejection_takes_two_passes [OF calc least keep, of "Fin (5 / 2)"] calc least keep
  show ?thesis by simp
qed

subsection \<open>\<open>final_candidate_catalogue\<close>\<close>

lemma running_sum_Suc:
  "k < length sortorder \<Longrightarrow>
     running_sum flux sortorder (Suc k) = np_add (running_sum flux sortorder k) (flux (sortorder ! k))"
  by (simp add: running_sum_def take_Suc_conv_app_nth)

lemma pick_loop_walk:
  assumes "pick_loop m rf ss thr vmax (length sortorder) js (cf, t, f) = Inr (cf', t', f')"
    and "drop i sortorder = js"
    and "t = running_sum (flux_of m rf ss) sortorder i"
  shows "cf' = cf @ map (\<lambda>k. comp_row_of ss (sortorder ! k))
                     (filter (accepted_at (flux_of m rf ss) ss thr vmax sortorder) [i..<length sortorder]) \<and>
         t' = running_sum (flux_of m rf ss) sortorder (length sortorder)"
  using assms
proof (induction js arbitrary: i cf t f)
  case Nil
  then have "length sortorder \<le> i" by simp
  with Nil show ?case by (simp add: running_sum_def)
next
  case (Cons j js)
  from Cons.prems(2) have i: "i < length sortorder"
    by (metis drop_eq_Nil list.distinct(1) not_le)
  with Cons.prems(2) have j: "sortorder ! i = j" and rest: "drop (Suc i) sortorder = js"
    by (simp_all add: Cons_nth_drop_Suc [symmetric])
  have range: "[i..<length sortorder] = i # [Suc i..<length sortorder]"
    using i by (simp add: upt_conv_Cons)
  have sum: "np_add t (flux_of m rf ss j) = running_sum (flux_of m rf ss) sortorder (Suc i)"
    using running_sum_Suc [OF i] j Cons.prems(3) by simp
  from Cons.prems(1) have ok: "rf \<noteq> []"
    "\<not> length rf \<le> fst (m (s_ra (ss ! j), s_dec (ss ! j)) (coords rf))"
    by (simp_all add: Let_def split: if_splits)
  show ?case
  proof (cases "accepted_at (flux_of m rf ss) ss thr vmax sortorder i")
    case True
    then have cond: "np_lt t thr \<and> (length sortorder = 1 \<or> np_lt (s_std (ss ! j)) vmax)"
      by (simp add: accepted_at_def j Cons.prems(3))
    with Cons.prems(1) ok have "pick_loop m rf ss thr vmax (length sortorder) js
        (cf @ [comp_row_of ss j], np_add t (flux_of m rf ss j), np_add f (flux_of m rf ss j)) =
        Inr (cf', t', f')"
      by (simp add: Let_def flux_of_def comp_row_of_def)
    from Cons.IH [OF this rest sum] True show ?thesis
      by (simp add: range j)
  next
    case False
    then have cond: "\<not> (np_lt t thr \<and> (length sortorder = 1 \<or> np_lt (s_std (ss ! j)) vmax))"
      by (simp add: accepted_at_def j Cons.prems(3))
    with Cons.prems(1) ok have "pick_loop m rf ss thr vmax (length sortorder) js
        (cf, np_add t (flux_of m rf ss j), f) = Inr (cf', t', f')"
      by (auto simp: Let_def flux_of_def)
    from Cons.IH [OF this rest sum] False show ?thesis
      by (simp add: range)
  qed
qed

lemma np_argsort_perm: "mset (np_argsort xs) = mset [0..<length xs]"
  by (simp add: np_argsort_def)

lemma np_argsort_length: "length (np_argsort xs) = length xs"
  by (simp add: np_argsort_def)

lemma np_argsort_sorted:
  "sorted (map (\<lambda>j. np_key (s_std (sortStars ! j))) (np_argsort (map s_std sortStars)))"
proof -
  let ?order = "np_argsort (map s_std sortStars)"
  have "set ?order = set [0..<length (map s_std sortStars)]"
    using np_argsort_perm [of "map s_std sortStars"] by (rule mset_eq_setD)
  then have "\<forall>j\<in>set ?order. j < length sortStars" by simp
  then have "map (\<lambda>j. np_key (s_std (sortStars ! j))) ?order =
             map (\<lambda>j. np_key (map s_std sortStars ! j)) ?order"
    by (intro map_cong refl) simp
  moreover have "sorted (map (\<lambda>j. np_key (map s_std sortStars ! j)) ?order)"
    unfolding np_argsort_def by (rule sorted_sort_key)
  ultimately show ?thesis by (simp only:)
qed

text \<open>
  Claim C2: whenever \<open>final_candidate_catalogue\<close> returns, the candidates were walked
  in ascending order of variability score, each once; the rows written are exactly
  those of the candidates for which the running flux sum before them was below
  \<open>thresholdCounts\<close> and (there is one candidate, or the score is below
  \<open>variabilityMax\<close>); the running sum at the end holds the flux of every candidate,
  accepted or not; so every accepted row has its score below \<open>variabilityMax\<close> unless
  there is exactly one candidate.
\<close>

theorem accepted_only_below_threshold_and_ceiling:
  assumes "final_candidate_catalogue match_to_catalog_sky comparisons sortStars thresholdCounts
             variabilityMax = Inr (compFile, num)"
  shows "sorted (map (\<lambda>j. np_key (s_std (sortStars ! j))) (np_argsort (map s_std sortStars))) \<and>
         mset (np_argsort (map s_std sortStars)) = mset [0..<length sortStars] \<and>
         compFile =
           map (\<lambda>k. comp_row_of sortStars (np_argsort (map s_std sortStars) ! k))
             (filter (accepted_at (flux_of match_to_catalog_sky (hd comparisons) sortStars) sortStars
                        thresholdCounts variabilityMax (np_argsort (map s_std sortStars)))
                [0..<length sortStars]) \<and>
         (\<exists>finalCountCounter.
            pick_loop match_to_catalog_sky (hd comparisons) sortStars thresholdCounts variabilityMax
              (length sortStars) (np_argsort (map s_std sortStars)) ([], Fin 0, Fin 0) =
            Inr (compFile,
                 running_sum (flux_of match_to_catalog_sky (hd comparisons) sortStars)
                   (np_argsort (map s_std sortStars)) (length sortStars),
                 finalCountCounter)) \<and>
         (\<forall>e\<in>set compFile. length sortStars = 1 \<or> np_lt (snd (snd e)) variabilityMax) \<and>
         num = length compFile"
proof -
  let ?order = "np_argsort (map s_std sortStars)"
  let ?flux = "flux_of match_to_catalog_sky (hd comparisons) sortStars"
  have len: "length ?order = length sortStars" by (simp add: np_argsort_length)
  from assms obtain t f where
    loop: "pick_loop match_to_catalog_sky (hd comparisons) sortStars thresholdCounts variabilityMax
             (length sortStars) ?order ([], Fin 0, Fin 0) = Inr (compFile, t, f)"
    and num: "num = length compFile"
    by (auto simp: final_candidate_catalogue_def Let_def len split: list.splits if_splits sum.splits)
  have start: "Fin 0 = running_sum ?flux ?order 0" by (simp add: running_sum_def)
  from loop have loop': "pick_loop match_to_catalog_sky (hd comparisons) sortStars thresholdCounts
      variabilityMax (length ?order) ?order ([], Fin 0, Fin 0) = Inr (compFile, t, f)"
    by (simp only: len)
  have walk: "compFile = map (\<lambda>k. comp_row_of sortStars (?order ! k))
        (filter (accepted_at ?flux sortStars thresholdCounts variabilityMax ?order) [0..<length sortStars])"
    and total: "t = running_sum ?flux ?order (length sortStars)"
    using pick_loop_walk [OF loop' _ start] by (simp_all add: len)
  have ceiling: "\<forall>e\<in>set compFile. length sortStars = 1 \<or> np_lt (snd (snd e)) variabilityMax"
    by (subst walk) (auto simp: accepted_at_def comp_row_of_def len)
  from loop total have "\<exists>finalCountCounter.
      pick_loop match_to_catalog_sky (hd comparisons) sortStars thresholdCounts variabilityMax
        (length sortStars) ?order ([], Fin 0, Fin 0) =
      Inr (compFile, running_sum ?flux ?order (length sortStars), finalCountCounter)"
    by auto
  with walk ceiling num np_argsort_sorted [of sortStars] np_argsort_perm [of "map s_std sortStars"]
  show ?thesis by simp
qed

lemma three_order: "np_argsort (map s_std three_scores) = [1, 2, 0]"
  by (simp add: np_argsort_def three_scores_def upt_rec)

theorem accepted_only_below_threshold_and_ceiling_witness:
  "final_candidate_catalogue exact_match [three_stars] three_scores (Fin 100) (Fin (1 / 4)) =
     Inr ([(Fin 151, Fin 20, Fin (1 / 10)), (Fin 152, Fin 20, Fin (1 / 5))], 2) \<and>
   np_argsort (map s_std three_scores) = [1, 2, 0] \<and>
   list_all (\<lambda>e. np_lt (snd (snd e)) (Fin (1 / 4)))
     [(Fin 151, Fin 20, Fin (1 / 10)), (Fin 152, Fin 20, Fin (1 / 5))]"
proof -
  have run: "final_candidate_catalogue exact_match [three_stars] three_scores (Fin 100) (Fin (1 / 4)) =
     Inr ([(Fin 151, Fin 20, Fin (1 / 10)), (Fin 152, Fin 20, Fin (1 / 5))], 2)"
    unfolding final_candidate_catalogue_def three_order
    by (simp add: three_scores_def three_stars_def star_def coords_def exact_match_def)
  from accepted_only_below_threshold_and_ceiling [OF run]
  have "\<forall>e\<in>set [(Fin 151, Fin 20, Fin (1 / 10)), (Fin 152, Fin 20, Fin (1 / 5))].
          length three_scores = 1 \<or> np_lt (snd (snd e)) (Fin (1 / 4))"
    by blast
  then have "list_all (\<lambda>e. np_lt (snd (snd e)) (Fin (1 / 4)))
     [(Fin 151, Fin 20, Fin (1 / 10)), (Fin 152, Fin 20, Fin (1 / 5))]"
    by (simp add: three_scores_def)
  with run three_order show ?thesis by simp
qed

subsection \<open>Target exclusion in \<open>catalogue_call\<close>\<close>

lemma table_rows_where:
  "table_rows resp (np_where (map P resp)) = filter P resp"
proof -
  have "map (\<lambda>i. resp ! i) (filter (\<lambda>i. map P resp ! i) [0..<length resp]) = filter P resp"
  proof (induction resp rule: rev_induct)
    case Nil
    show ?case by simp
  next
    case (snoc x xs)
    have "filter (\<lambda>i. map P (xs @ [x]) ! i) [0..<length xs] = filter (\<lambda>i. map P xs ! i) [0..<length xs]"
      by (rule filter_cong) (simp_all add: nth_append)
    moreover have "map (\<lambda>i. (xs @ [x]) ! i) (filter (\<lambda>i. map P xs ! i) [0..<length xs]) =
        map (\<lambda>i. xs ! i) (filter (\<lambda>i. map P xs ! i) [0..<length xs])"
      by (rule map_cong) (simp_all add: nth_append)
    ultimately show ?case using snoc.IH by (simp add: nth_append)
  qed
  then show ?thesis by (simp add: table_rows_def np_where_def)
qed

lemma exclude_target_declination_only:
  "exclude_target resp tg =
     filter (\<lambda>r. np_gt (np_abs (np_sub (cat_dec r) (snd tg))) (Fin 0.0014)) resp"
  by (simp add: exclude_target_def py_and_def tuple_truth_def table_rows_where)
    (simp add: np_where_def)

text \<open>
  Claim C6 (every surviving entry differs from every target by more than 0.0014 degrees
  in right ascension, and in declination): the code applies the declination test only.
  \<open>where(...) and where(...)\<close> joins two non-empty tuples, and Python's \<open>and\<close> then
  yields the second. An entry at the target's right ascension, one degree away in
  declination, survives.
\<close>

theorem entry_at_target_right_ascension_survives:
  "exclude_targets [\<lparr>cat_ra = Fin 150, cat_dec = Fin 21, cat_mag = Fin 12, cat_emag = Fin 0\<rparr>]
     [(Fin 150, Fin 20)] =
     [\<lparr>cat_ra = Fin 150, cat_dec = Fin 21, cat_mag = Fin 12, cat_emag = Fin 0\<rparr>] \<and>
   \<not> np_gt (np_abs (np_sub (Fin 150) (Fin 150))) (Fin 0.0014)"
  by (simp add: exclude_targets_def exclude_target_declination_only np_gt_def np_sub_def)

subsection \<open>The crowding loop of \<open>catalogue_call\<close>\<close>

lemma other_entry:
  assumes "i < length xs" and "j < length xs" and "i \<noteq> j"
  shows "xs ! j \<in> set (others i xs)"
proof (cases "j < i")
  case True
  then have "xs ! j = take i xs ! j" by simp
  moreover have "j < length (take i xs)" using True assms(1) by simp
  ultimately have "xs ! j \<in> set (take i xs)" by (metis nth_mem)
  then show ?thesis by (simp add: others_def)
next
  case False
  with assms have "Suc i \<le> j" by simp
  then have "xs ! j = drop (Suc i) xs ! (j - Suc i)" and "j - Suc i < length (drop (Suc i) xs)"
    using assms(2) by simp_all
  then have "xs ! j \<in> set (drop (Suc i) xs)" by (metis nth_mem)
  then show ?thesis by (simp add: others_def)
qed

lemma d2d_of_le:
  assumes "i < length resp" and "j < length resp" and "i \<noteq> j"
  shows "d2d_of separation resp i \<le> separation (resp ! i) (resp ! j)"
proof -
  let ?ds = "map (separation (resp ! i)) (others i resp)"
  from other_entry [OF assms] have mem: "separation (resp ! i) (resp ! j) \<in> set ?ds" by simp
  then have "?ds \<noteq> []" by auto
  then have "min_list ?ds = Min (set ?ds)" by (rule min_list_Min)
  with mem show ?thesis by (simp add: d2d_of_def)
qed

lemma no_reject_apart:
  assumes "catReject_of separation closerejectd resp = []"
    and "i < length resp" and "j < length resp" and "i \<noteq> j"
  shows "closerejectd \<le> separation (resp ! i) (resp ! j)"
proof -
  from assms(1,2) have "\<not> d2d_of separation resp i < closerejectd"
    by (auto simp: catReject_of_def filter_empty_conv)
  with d2d_of_le [OF assms(2-4), of separation] show ?thesis by simp
qed

lemma crowding_loop_result:
  "crowding_loop separation closerejectd resp = Inr survivors \<Longrightarrow>
     2 \<le> length survivors \<and> length survivors \<le> length resp \<and>
     catReject_of separation closerejectd survivors = []"
proof (induction separation closerejectd resp rule: crowding_loop.induct)
  case (1 separation closerejectd resp)
  show ?case
  proof (cases "catReject_of separation closerejectd resp = []")
    case True
    with "1.prems" show ?thesis
      by (subst (asm) crowding_loop.simps) (cases resp; cases "tl resp"; auto split: if_splits)
  next
    case False
    with "1.prems" have ne: "resp \<noteq> []" "length resp \<noteq> 1"
      and rec: "crowding_loop separation closerejectd
          (nths resp (- set (catReject_of separation closerejectd resp))) = Inr survivors"
      by (subst (asm) crowding_loop.simps, simp split: if_splits)+
    from False obtain q where q: "q \<in> set (catReject_of separation closerejectd resp)"
      by (cases "catReject_of separation closerejectd resp") auto
    from del_rows_shorter [OF q catReject_of_bound [OF q]] "1.IH" [OF ne False rec]
    show ?thesis by simp
  qed
qed

text \<open>
  Claim C5: when the crowding loop exits, any two distinct surviving entries are at
  least \<open>closerejectd\<close> apart, every survivor's nearest other entry is at least that
  far, and the last pass rejected nothing; for every table the loop can match (two
  entries or more) it exits on that table exactly when the pass rejects no entry.
\<close>

theorem crowding_loop_fixed_point:
  assumes "crowding_loop separation closerejectd resp = Inr survivors"
  shows "(\<forall>i<length survivors. \<forall>j<length survivors. i \<noteq> j \<longrightarrow>
            closerejectd \<le> separation (survivors ! i) (survivors ! j)) \<and>
         (\<forall>q<length survivors. closerejectd \<le> d2d_of separation survivors q) \<and>
         catReject_of separation closerejectd survivors = [] \<and>
         (\<forall>table. 2 \<le> length table \<longrightarrow>
            (crowding_loop separation closerejectd table = Inr table) =
            (catReject_of separation closerejectd table = []))"
proof -
  from crowding_loop_result [OF assms]
  have none: "catReject_of separation closerejectd survivors = []" by simp
  have apart: "\<forall>i<length survivors. \<forall>j<length survivors. i \<noteq> j \<longrightarrow>
      closerejectd \<le> separation (survivors ! i) (survivors ! j)"
    using no_reject_apart [OF none] by blast
  have far: "\<forall>q<length survivors. closerejectd \<le> d2d_of separation survivors q"
    using none by (auto simp: catReject_of_def filter_empty_conv not_less)
  have exits: "(crowding_loop separation closerejectd table = Inr table) =
      (catReject_of separation closerejectd table = [])" if two: "2 \<le> length table" for table
  proof
    assume "crowding_loop separation closerejectd table = Inr table"
    from crowding_loop_result [OF this]
    show "catReject_of separation closerejectd table = []" by simp
  next
    assume "catReject_of separation closerejectd table = []"
    with two show "crowding_loop separation closerejectd table = Inr table"
      by (subst crowding_loop.simps) auto
  qed
  from apart far none exits show ?thesis by blast
qed

lemma equator_separation_entries [simp]:
  "equator_separation (equator_entry x) (equator_entry y) = 3600 * \<bar>x - y\<bar>"
  by (simp add: equator_separation_def equator_entry_def)

theorem crowding_loop_fixed_point_witness:
  "crowding_loop equator_separation 5
     [equator_entry 10, equator_entry (10001 / 1000), equator_entry 11, equator_entry 12] =
     Inr [equator_entry 11, equator_entry 12] \<and>
   5 \<le> equator_separation (equator_entry 11) (equator_entry 12) \<and>
   catReject_of equator_separation 5 [equator_entry 11, equator_entry 12] = []"
proof -
  have first: "catReject_of equator_separation 5
      [equator_entry 10, equator_entry (10001 / 1000), equator_entry 11, equator_entry 12] = [0, 1]"
    by (simp add: catReject_of_def d2d_of_def others_def upt_rec)
  have second: "catReject_of equator_separation 5 [equator_entry 11, equator_entry 12] = []"
    by (simp add: catReject_of_def d2d_of_def others_def upt_rec)
  have del: "nths [equator_entry 10, equator_entry (10001 / 1000), equator_entry 11, equator_entry 12]
      (- set [0, 1]) = [equator_entry 11, equator_entry 12]"
    by (simp add: nths_Cons)
  have stop: "crowding_loop equator_separation 5 [equator_entry 11, equator_entry 12] =
      Inr [equator_entry 11, equator_entry 12]"
    by (subst crowding_loop.simps) (simp add: second)
  have run: "crowding_loop equator_separation 5
     [equator_entry 10, equator_entry (10001 / 1000), equator_entry 11, equator_entry 12] =
     Inr [equator_entry 11, equator_entry 12]"
    by (subst crowding_loop.simps) (simp only: first del stop, simp)
  from crowding_loop_fixed_point [OF run]
  have "\<forall>i<length [equator_entry 11, equator_entry 12].
          \<forall>j<length [equator_entry 11, equator_entry 12]. i \<noteq> j \<longrightarrow>
            5 \<le> equator_separation ([equator_entry 11, equator_entry 12] ! i)
                   ([equator_entry 11, equator_entry 12] ! j)"
    by blast
  then have "5 \<le> equator_separation ([equator_entry 11, equator_entry 12] ! 0)
                   ([equator_entry 11, equator_entry 12] ! 1)"
    by simp
  with run second show ?thesis by simp
qed

subsection \<open>The filter table of \<open>find_comparisons_calibrated\<close>\<close>

lemma catalogues_of_unsupported:
  "filterCode \<notin> fst ` set FILTERS \<Longrightarrow> catalogues_of filterCode = Inl (KeyError filterCode)"
  by (simp add: catalogues_of_def dict_getitem_def map_of_eq_None_iff [THEN iffD2])

lemma catalogues_of_never_AstrosourceException:
  "catalogues_of filterCode \<noteq> Inl (AstrosourceException msg)"
  by (simp add: catalogues_of_def dict_getitem_def split: option.splits)

text \<open>
  Claim C8 (an unsupported filter band raises the AstrosourceException "is not
  accepted at present"): the code does not. A missing dictionary key raises KeyError,
  which \<open>except IndexError\<close> does not catch, so the KeyError leaves the function
  uncaught. \<open>R\<close> is not a key of \<open>FILTERS\<close>.
\<close>

theorem unsupported_band_raises_KeyError:
  "map_of FILTERS ''R'' = None \<and> catalogues_of ''R'' = Inl (KeyError ''R'')"
  by (simp add: catalogues_of_def dict_getitem_def FILTERS_def)

subsection \<open>The calibration of the frames in \<open>find_comparisons_calibrated\<close>\<close>

lemma global_table_unbound: "global_table name = Inl (NameError name)"
  by (simp add: global_table_def module_tables_def)

lemma calibrate_file_raises: "\<exists>e. calibrate_file m calibStands photFile = Inl e"
  by (cases "tempDiff_loop m (to_magnitudes photFile) calibStands []")
    (simp_all add: calibrate_file_def global_table_unbound Let_def)

lemma find_comparisons_calibrated_tail_never_returns:
  "\<exists>e. find_comparisons_calibrated_tail m calibStands photFiles = Inl e"
proof (cases photFiles)
  case Nil
  then show ?thesis
    by (simp add: find_comparisons_calibrated_tail_def calibration_summary_def)
next
  case (Cons photFile files)
  from calibrate_file_raises [of m calibStands photFile] obtain e where
    "calibrate_file m calibStands photFile = Inl e" by blast
  with Cons show ?thesis by (simp add: find_comparisons_calibrated_tail_def)
qed

text \<open>
  Claim C4 (the reported calibration uncertainty is the median per-star standard
  deviation over the square root of the number of frames): the code reports no
  uncertainty. The loop over the files reads \<open>compUsedFile\<close> (line 517), which neither
  the function nor the module binds, so the call fails with NameError on its first
  file, before \<open>errCalib\<close> is computed. One calibration standard and two photometry
  files of two stars each.
\<close>

theorem calibration_raises_NameError:
  "find_comparisons_calibrated_tail equator_match
     [\<lparr>cs_ra = Fin 150, cs_dec = Fin 0, cs_std = Fin (1 / 100), cs_mag = Fin 12,
       cs_emag = Fin (1 / 50)\<rparr>]
     [[star 150 0 100, star 151 0 1000], [star 150 0 110, star 151 0 990]] =
     Inl (NameError ''compUsedFile'')"
  by (simp add: find_comparisons_calibrated_tail_def calibrate_file_def to_magnitudes_def
      mag_at_def equator_match_def ra_gap_def coords_def star_def global_table_unbound Let_def)

end
